theory Spec2Isabelle
  imports Main
begin

section \<open>JavaScript values\<close>

text \<open>
  The extension exchanges JSON bodies, message payloads and storage entries. They are
  modelled by one datatype of JavaScript values. Numbers are integers (the timestamps,
  counters and second counts the code handles), strings are lists of code units below
  256. \<open>JUndefined\<close> is what reading a missing property gives.
\<close>

datatype jsval =
    JUndefined
  | JNull
  | JBool bool
  | JNum int
  | JStr string
  | JArr "jsval list"
  | JObj "(string \<times> jsval) list"

text \<open>\<open>!v\<close> is \<open>\<not> truthy v\<close>.\<close>

fun truthy :: "jsval \<Rightarrow> bool" where
  "truthy JUndefined = False"
| "truthy JNull = False"
| "truthy (JBool b) = b"
| "truthy (JNum n) = (n \<noteq> 0)"
| "truthy (JStr s) = (s \<noteq> [])"
| "truthy (JArr xs) = True"
| "truthy (JObj kvs) = True"

fun nullish :: "jsval \<Rightarrow> bool" where
  "nullish JUndefined = True"
| "nullish JNull = True"
| "nullish v = False"

text \<open>
  \<open>v.k\<close> for a value that is not nullish: an object is looked up, and none of the
  property names the extension reads exists on a boxed primitive or an array.
  \<open>v?.k\<close> is \<open>opt_prop v k\<close>; \<open>a || b\<close> is \<open>js_or a b\<close>.
\<close>

fun get_prop :: "jsval \<Rightarrow> string \<Rightarrow> jsval" where
  "get_prop (JObj kvs) k = (case map_of kvs k of Some v \<Rightarrow> v | None \<Rightarrow> JUndefined)"
| "get_prop v k = JUndefined"

definition opt_prop :: "jsval \<Rightarrow> string \<Rightarrow> jsval" where
  "opt_prop v k = (if nullish v then JUndefined else get_prop v k)"

definition js_or :: "jsval \<Rightarrow> jsval \<Rightarrow> jsval" where
  "js_or a b = (if truthy a then a else b)"

subsection \<open>Conversion to string and to number\<close>

definition digit_char :: "nat \<Rightarrow> char" where
  "digit_char d = char_of (48 + d)"

fun show_nat :: "nat \<Rightarrow> string" where
  "show_nat n = (if n < 10 then [digit_char n] else show_nat (n div 10) @ [digit_char (n mod 10)])"

declare show_nat.simps [simp del]

definition show_int :: "int \<Rightarrow> string" where
  "show_int i = (if i < 0 then CHR ''-'' # show_nat (nat (- i)) else show_nat (nat i))"

fun join_comma :: "string list \<Rightarrow> string" where
  "join_comma [] = []"
| "join_comma [s] = s"
| "join_comma (s # t # ss) = s @ CHR '','' # join_comma (t # ss)"

text \<open>\<open>String(v)\<close>: an array joins its elements with commas, a nullish element being empty.\<close>

fun to_string :: "jsval \<Rightarrow> string" where
  "to_string JUndefined = ''undefined''"
| "to_string JNull = ''null''"
| "to_string (JBool b) = (if b then ''true'' else ''false'')"
| "to_string (JNum n) = show_int n"
| "to_string (JStr s) = s"
| "to_string (JArr xs) = join_comma (map (\<lambda>x. if nullish x then [] else to_string x) xs)"
| "to_string (JObj kvs) = ''[object Object]''"

text \<open>
  \<open>Number(v)\<close>, \<open>None\<close> being NaN. The runtime's conversion of a string to a number is
  the parameter \<open>strnum\<close>: every result below holds for any such conversion.
\<close>

fun to_number :: "(string \<Rightarrow> int option) \<Rightarrow> jsval \<Rightarrow> int option" where
  "to_number strnum JUndefined = None"
| "to_number strnum JNull = Some 0"
| "to_number strnum (JBool b) = Some (if b then 1 else 0)"
| "to_number strnum (JNum n) = Some n"
| "to_number strnum (JStr s) = strnum s"
| "to_number strnum (JArr xs) = strnum (to_string (JArr xs))"
| "to_number strnum (JObj kvs) = strnum (to_string (JObj kvs))"

subsection \<open>Strings: trim and the regular expressions of the classifier\<close>

text \<open>
  White space and line terminators among the code units below 256: tab, line feed,
  vertical tab, form feed, carriage return, space and no-break space.
\<close>

definition is_ws :: "char \<Rightarrow> bool" where
  "is_ws c = (c \<in> set [CHR 0x09, CHR 0x0A, CHR 0x0B, CHR 0x0C, CHR 0x0D, CHR 0x20, CHR 0xA0])"

definition trim :: "string \<Rightarrow> string" where
  "trim s = rev (dropWhile is_ws (rev (dropWhile is_ws s)))"

text \<open>
  The four patterns of \<open>parse429Response\<close> use literal characters, one optional character
  and \<open>.*\<close>, all under the flag \<open>i\<close>. A literal ASCII letter matches both of its cases
  and nothing else; \<open>.\<close> matches everything but a line terminator.
\<close>

datatype atom = Ch char | Opt char | DotStar

definition ascii_upper :: "char \<Rightarrow> char" where
  "ascii_upper c =
     (case map_of (zip ''abcdefghijklmnopqrstuvwxyz'' ''ABCDEFGHIJKLMNOPQRSTUVWXYZ'') c of
        Some u \<Rightarrow> u
      | None \<Rightarrow> c)"

definition ci_eq :: "char \<Rightarrow> char \<Rightarrow> bool" where
  "ci_eq c d = (ascii_upper c = ascii_upper d)"

definition is_line_terminator :: "char \<Rightarrow> bool" where
  "is_line_terminator c = (c = CHR 0x0A \<or> c = CHR 0x0D)"

fun match_here :: "atom list \<Rightarrow> string \<Rightarrow> bool" where
  "match_here [] s = True"
| "match_here (Ch c # r) [] = False"
| "match_here (Ch c # r) (d # t) = (if ci_eq c d then match_here r t else False)"
| "match_here (Opt c # r) [] = match_here r []"
| "match_here (Opt c # r) (d # t) =
     (if ci_eq c d \<and> match_here r t then True else match_here r (d # t))"
| "match_here (DotStar # r) [] = match_here r []"
| "match_here (DotStar # r) (d # t) =
     (if match_here r (d # t) then True
      else if is_line_terminator d then False else match_here (DotStar # r) t)"

text \<open>\<open>re.test(s)\<close> for an unanchored pattern: a match may start at any position.\<close>

fun regex_test :: "atom list \<Rightarrow> string \<Rightarrow> bool" where
  "regex_test p [] = match_here p []"
| "regex_test p (d # t) = (if match_here p (d # t) then True else regex_test p t)"

definition lit :: "string \<Rightarrow> atom list" where
  "lit s = map Ch s"

definition re_already_have :: "atom list" where
  "re_already_have = lit ''you already have 3 generation'' @ [Opt CHR ''s''] @ lit '' in progress''"

definition re_only_generate :: "atom list" where
  "re_only_generate = lit ''you can only generate 3 video'' @ [Opt CHR ''s''] @ lit '' at a time''"

definition re_too_many :: "atom list" where
  "re_too_many = lit ''too many concurrent''"

definition re_maximum :: "atom list" where
  "re_maximum = lit ''maximum'' @ [DotStar] @ lit ''concurrent'' @ [DotStar] @ lit ''generations''"

section \<open>The 429 classifier of the background worker\<close>

datatype parsed429 =
    RATE_LIMIT_UNKNOWN (message: jsval) (rawData: "jsval option")
  | DAILY_LIMIT (message: jsval) (resetSeconds: jsval) (resetTime: "int option")
      (creditRemaining: jsval)
  | CONCURRENT_LIMIT (message: jsval) (numTasks: jsval)

definition is_daily_limit :: "jsval \<Rightarrow> bool" where
  "is_daily_limit data =
     (get_prop data ''type'' = JStr ''rate_limit_exhausted'' \<or>
      (opt_prop (get_prop data ''rate_limit_and_credit_balance'') ''rate_limit_reached'' = JBool True \<and>
       opt_prop (get_prop data ''rate_limit_and_credit_balance'') ''credit_remaining'' = JNum 0))"

definition isConcurrentLimit :: "jsval \<Rightarrow> bool" where
  "isConcurrentLimit data =
     (let errorCode = opt_prop (get_prop data ''error'') ''code'';
          errorMessage = to_string (js_or (opt_prop (get_prop data ''error'') ''message'') (JStr ''''));
          numTasks = opt_prop (opt_prop (get_prop data ''error'') ''details'') ''num_tasks''
      in errorCode = JStr ''too_many_concurrent_tasks'' \<or>
         numTasks = JNum 3 \<or>
         regex_test re_already_have errorMessage \<or>
         regex_test re_only_generate errorMessage \<or>
         regex_test re_too_many errorMessage \<or>
         regex_test re_maximum errorMessage)"

text \<open>\<open>now\<close> is the value of \<open>Date.now()\<close>.\<close>

definition parse429Response :: "(string \<Rightarrow> int option) \<Rightarrow> int \<Rightarrow> jsval \<Rightarrow> parsed429" where
  "parse429Response strnum now data =
     (if \<not> truthy data then
        RATE_LIMIT_UNKNOWN (JStr ''Rate limit reached (unknown type)'') None
      else if is_daily_limit data then
        (let rs = js_or (opt_prop (get_prop data ''rate_limit_and_credit_balance'')
                           ''access_resets_in_seconds'') (JNum 0)
         in DAILY_LIMIT (JStr ''Daily generation limit reached.'') rs
              (case to_number strnum rs of
                 None \<Rightarrow> None
               | Some n \<Rightarrow> if n > 0 then Some (now + n * 1000) else None)
              (js_or (opt_prop (get_prop data ''rate_limit_and_credit_balance'')
                        ''credit_remaining'') (JNum 0)))
      else if isConcurrentLimit data then
        CONCURRENT_LIMIT
          (js_or (opt_prop (get_prop data ''error'') ''message'')
             (JStr ''Maximum concurrent generations reached (3).''))
          (js_or (opt_prop (opt_prop (get_prop data ''error'') ''details'') ''num_tasks'') (JNum 3))
      else
        RATE_LIMIT_UNKNOWN
          (js_or (opt_prop (get_prop data ''error'') ''message'') (JStr ''Rate limit reached.''))
          (Some data))"


text \<open>A string-to-number conversion that never yields a number, for closed examples.\<close>

definition nan_strnum :: "string \<Rightarrow> int option" where
  "nan_strnum s = None"

section \<open>Credential storage of the background worker\<close>

text \<open>
  \<open>chrome.storage.session\<close> and \<open>chrome.storage.local\<close> are maps from keys to values;
  \<open>set\<close> merges its argument into the area. A \<open>set\<close> may be rejected: the flags
  \<open>session_ok\<close> and \<open>local_ok\<close> say whether the area accepts the write.
\<close>

type_synonym area = "string \<Rightarrow> jsval option"

record stores =
  session_area :: area
  local_area :: area

definition KEY_TOKEN :: string where "KEY_TOKEN = ''capturedToken''"
definition KEY_DEVICE_ID :: string where "KEY_DEVICE_ID = ''capturedDeviceId''"
definition KEY_LANGUAGE :: string where "KEY_LANGUAGE = ''capturedLanguage''"
definition KEY_TOKEN_CAPTURED_AT :: string where "KEY_TOKEN_CAPTURED_AT = ''tokenCapturedAt''"

fun is_string :: "jsval \<Rightarrow> bool" where
  "is_string (JStr s) = True"
| "is_string v = False"

fun str_of :: "jsval \<Rightarrow> string" where
  "str_of (JStr s) = s"
| "str_of v = []"

text \<open>
  The reply of \<open>setManualToken\<close>: \<open>{success: false, error}\<close>, \<open>{success: true, hasToken}\<close>,
  or the exception of a rejected write, which leaves the function.
\<close>

datatype token_reply = TokenRejected string | TokenAccepted bool | StorageRaised

definition manual_token_data :: "int \<Rightarrow> jsval \<Rightarrow> jsval \<Rightarrow> jsval \<Rightarrow> area" where
  "manual_token_data now token deviceId language =
     (let d0 = [KEY_TOKEN \<mapsto> JStr (trim (str_of token)), KEY_TOKEN_CAPTURED_AT \<mapsto> JNum now];
          d1 = (if truthy deviceId then d0(KEY_DEVICE_ID \<mapsto> deviceId) else d0)
      in if truthy language then d1(KEY_LANGUAGE \<mapsto> language) else d1)"

definition setManualToken ::
  "bool \<Rightarrow> bool \<Rightarrow> int \<Rightarrow> stores \<Rightarrow> jsval \<Rightarrow> token_reply \<times> stores" where
  "setManualToken session_ok local_ok now st payload =
     (let p = js_or payload (JObj []);
          token = get_prop p ''token'';
          deviceId = get_prop p ''deviceId'';
          language = get_prop p ''language''
      in if \<not> truthy token \<or> \<not> is_string token \<or> length (trim (str_of token)) = 0 then
           (TokenRejected ''Invalid token'', st)
         else
           (let data = manual_token_data now token deviceId language
            in if session_ok then
                 (TokenAccepted True, st\<lparr>session_area := session_area st ++ data\<rparr>)
               else if local_ok then
                 (TokenAccepted True, st\<lparr>local_area := local_area st ++ data\<rparr>)
               else (StorageRaised, st)))"

section \<open>Controller tab selection of the background worker\<close>

text \<open>
  The two entries \<open>controllerTabId\<close> and \<open>controllerHeartbeat\<close> of the local area.
  A tab id is a number or missing (\<open>sender.tab?.id\<close>); \<open>tab_exists\<close> tells whether
  \<open>chrome.tabs.get\<close> finds a tab.
\<close>

record lease =
  controllerTabId :: "int option"
  controllerHeartbeat :: "int option"

text \<open>Truth value of a number that may be missing: missing and 0 are falsy.\<close>

fun truthy_num :: "int option \<Rightarrow> bool" where
  "truthy_num None = False"
| "truthy_num (Some n) = (n \<noteq> 0)"

datatype controller_reply =
    ControllerFailure
  | IsController bool

definition registerController ::
  "(int \<Rightarrow> bool) \<Rightarrow> int \<Rightarrow> lease \<Rightarrow> int option \<Rightarrow> controller_reply \<times> lease" where
  "registerController tab_exists now l tabId =
     (if \<not> truthy_num tabId then (ControllerFailure, l)
      else
        (let currentController = controllerTabId l;
             lastHeartbeat = (if truthy_num (controllerHeartbeat l) then the (controllerHeartbeat l) else 0)
         in if \<not> truthy_num currentController \<or> now - lastHeartbeat > 10000 then
              (IsController True, \<lparr>controllerTabId = tabId, controllerHeartbeat = Some now\<rparr>)
            else if tab_exists (the currentController) then
              (if currentController = tabId then (IsController True, l)
               else (IsController False, l))
            else
              (IsController True, \<lparr>controllerTabId = tabId, controllerHeartbeat = Some now\<rparr>)))"

definition handleHeartbeat :: "int \<Rightarrow> lease \<Rightarrow> int option \<Rightarrow> controller_reply \<times> lease" where
  "handleHeartbeat now l tabId =
     (if \<not> truthy_num tabId then (ControllerFailure, l)
      else if controllerTabId l = tabId then
        (IsController True, l\<lparr>controllerHeartbeat := Some now\<rparr>)
      else (IsController False, l))"

text \<open>The listener of \<open>chrome.tabs.onRemoved\<close>.\<close>

definition onTabRemoved :: "lease \<Rightarrow> int \<Rightarrow> lease" where
  "onTabRemoved l tabId =
     (if controllerTabId l = Some tabId
      then \<lparr>controllerTabId = None, controllerHeartbeat = None\<rparr> else l)"


section \<open>The content script\<close>

subsection \<open>State\<close>

datatype item_status = Queued | Sending | Error | Submitted

record queue_item =
  item_id :: string
  prompt :: string
  options :: "(string \<times> jsval) list"
  status :: item_status
  errorMessage :: "string option"
  retryCount :: int
  createdAt :: int
  updatedAt :: int

text \<open>
  The entry \<open>soraQueue\<close> of \<open>chrome.storage.local\<close>, as \<open>saveQueue\<close> writes it. A field
  is \<open>None\<close> when it is missing or null; an entry never written has every field missing.
\<close>

record persisted =
  p_queue :: "queue_item list option"
  p_dailyLimitResetTime :: "int option"
  p_isPaused :: "bool option"
  p_pauseReason :: "string option"
  p_isAutomationEnabled :: "bool option"

text \<open>
  The object \<open>state\<close> of the content script, without its timer ids and cached elements,
  together with what the script's behaviour depends on beside it: the storage entry, the
  item held by a suspended \<open>submitQueueItem\<close> (\<open>inflight\<close>, set while the call to the
  background worker is awaited), the due times of the timers that
  \<open>scheduleBackoffRetry\<close> has set, and whether the extension context of the script is
  still valid (\<open>contextValid\<close>: \<open>chrome.runtime.id\<close> is there). The context is lost
  when the extension is reloaded or updated while the page stays open; the script
  records in \<open>extensionInvalidated\<close> that it has noticed.
\<close>

record state =
  queue :: "queue_item list"
  isAutomationEnabled :: bool
  isPaused :: bool
  pauseReason :: "string option"
  dailyLimitResetTime :: "int option"
  hasValidToken :: bool
  lastTokenCapture :: "int option"
  activeTaskCount :: int
  lastPollTime :: "int option"
  lastSubmitTime :: "int option"
  isSubmitting :: bool
  isController :: bool
  mainWorldReady :: bool
  storage :: persisted
  inflight :: "queue_item option"
  backoffTimers :: "int list"
  extensionInvalidated :: bool
  contextValid :: bool

definition MAX_CONCURRENT_TASKS :: int where "MAX_CONCURRENT_TASKS = 3"
definition SUBMIT_COOLDOWN_MS :: int where "SUBMIT_COOLDOWN_MS = 2000"
definition BACKOFF_BASE_MS :: int where "BACKOFF_BASE_MS = 10000"
definition BACKOFF_JITTER_MS :: int where "BACKOFF_JITTER_MS = 5000"

text \<open>\<open>t && P(t)\<close> for a timestamp that may be null.\<close>

definition js_and_num :: "int option \<Rightarrow> (int \<Rightarrow> bool) \<Rightarrow> bool" where
  "js_and_num t P = (case t of None \<Rightarrow> False | Some v \<Rightarrow> v \<noteq> 0 \<and> P v)"

subsection \<open>The extension context\<close>

definition isExtensionContextInvalidated :: "state \<Rightarrow> bool" where
  "isExtensionContextInvalidated s = (\<not> contextValid s)"

text \<open>
  \<open>handleExtensionInvalidated\<close> sets the flag and stops the interval timers of the poll,
  the heartbeat and the sweep; the functions of those timers below do nothing once the
  flag is set.
\<close>

definition handleExtensionInvalidated :: "state \<Rightarrow> state" where
  "handleExtensionInvalidated s =
     (if extensionInvalidated s then s else s\<lparr>extensionInvalidated := True\<rparr>)"

text \<open>\<open>msg.includes(sub)\<close>.\<close>

fun starts_with :: "string \<Rightarrow> string \<Rightarrow> bool" where
  "starts_with msg [] = True"
| "starts_with [] (c # sub) = False"
| "starts_with (d # msg) (c # sub) = (if d = c then starts_with msg sub else False)"

fun str_includes :: "string \<Rightarrow> string \<Rightarrow> bool" where
  "str_includes [] sub = starts_with [] sub"
| "str_includes (d # msg) sub = (if starts_with (d # msg) sub then True else str_includes msg sub)"

text \<open>
  A call of \<open>sendToBackground\<close> that is rejected with the message \<open>msg\<close>, up to the
  point where the exception reaches the caller. The call made in a context that is
  already invalid is rejected with the message \<open>Extension context invalidated\<close>.
\<close>

definition sendToBackground_rejected :: "state \<Rightarrow> string \<Rightarrow> state" where
  "sendToBackground_rejected s msg =
     (if str_includes msg ''Extension context invalidated'' \<or> str_includes msg ''message port closed''
      then handleExtensionInvalidated s else s)"

text \<open>
  \<open>saveQueue\<close> returns at once when the flag is set. \<open>chrome.storage.local.set\<close> throws
  in an invalid context; the \<open>catch\<close> then sets the flag and nothing is written.
\<close>

definition saveQueue :: "state \<Rightarrow> state" where
  "saveQueue s =
     (if extensionInvalidated s then s
      else if contextValid s then
        s\<lparr>storage :=
           \<lparr>p_queue = Some (queue s), p_dailyLimitResetTime = dailyLimitResetTime s,
            p_isPaused = Some (isPaused s), p_pauseReason = pauseReason s,
            p_isAutomationEnabled = Some (isAutomationEnabled s)\<rparr>\<rparr>
      else if isExtensionContextInvalidated s then handleExtensionInvalidated s
      else s)"

subsection \<open>The Submit tick\<close>

text \<open>
  The guard conditions of \<open>checkAndSubmit\<close>, in the order of the source. The result is
  the number of the first \<open>return\<close> taken, \<open>None\<close> when none is. One run of the script
  between two awaits reads one clock value \<open>now\<close>.
\<close>

definition admission :: "state \<Rightarrow> int \<Rightarrow> nat option" where
  "admission s now =
     (if \<not> isAutomationEnabled s then Some 1
      else if isPaused s then Some 2
      else if isSubmitting s then Some 3
      else if \<not> hasValidToken s then Some 4
      else if \<not> isController s then Some 5
      else if activeTaskCount s \<ge> MAX_CONCURRENT_TASKS then Some 6
      else if js_and_num (dailyLimitResetTime s) (\<lambda>t. now < t) then Some 7
      else if js_and_num (lastSubmitTime s) (\<lambda>t. now - t < SUBMIT_COOLDOWN_MS) then Some 8
      else None)"

fun upd_first :: "('a \<Rightarrow> bool) \<Rightarrow> ('a \<Rightarrow> 'a) \<Rightarrow> 'a list \<Rightarrow> 'a list" where
  "upd_first P f [] = []"
| "upd_first P f (x # xs) = (if P x then f x # xs else x # upd_first P f xs)"

text \<open>The assignments of \<open>updateItemStatus\<close> to the item it has found.\<close>

definition set_status :: "item_status \<Rightarrow> string option \<Rightarrow> int \<Rightarrow> queue_item \<Rightarrow> queue_item" where
  "set_status st msg now i =
     i\<lparr>status := st, errorMessage := msg, updatedAt := now,
       retryCount := (if st = Error then retryCount i + 1 else retryCount i)\<rparr>"

text \<open>
  \<open>updateUI\<close> changes the state in one place: when the pause for the daily limit has run
  out it clears the pause and calls \<open>checkAndSubmit\<close>. \<open>checkAndSubmit\<close> reaches
  \<open>updateUI\<close> again through \<open>submitQueueItem\<close> and \<open>updateItemStatus\<close>, so the four
  functions are defined together. \<open>submitQueueItem_begin\<close> is \<open>submitQueueItem\<close> up to its
  \<open>await\<close>; of the item it holds, the continuation reads the id and the retry count.
\<close>

function updateUI :: "state \<Rightarrow> int \<Rightarrow> state"
  and checkAndSubmit :: "state \<Rightarrow> int \<Rightarrow> state"
  and submitQueueItem_begin :: "state \<Rightarrow> queue_item \<Rightarrow> int \<Rightarrow> state"
  and updateItemStatus :: "state \<Rightarrow> string \<Rightarrow> item_status \<Rightarrow> string option \<Rightarrow> int \<Rightarrow> state"
where
  "updateUI s now =
     (if isPaused s \<and> pauseReason s = Some ''daily_limit'' \<and> truthy_num (dailyLimitResetTime s) then
        (if the (dailyLimitResetTime s) - now > 0 then s
         else checkAndSubmit
                (saveQueue (s\<lparr>isPaused := False, pauseReason := None, dailyLimitResetTime := None\<rparr>)) now)
      else s)"
| "checkAndSubmit s now =
     (if admission s now \<noteq> None then s
      else (case find (\<lambda>item. status item = Queued) (queue s) of
              None \<Rightarrow> s
            | Some nextItem \<Rightarrow> submitQueueItem_begin s nextItem now))"
| "submitQueueItem_begin s item now =
     (updateItemStatus (s\<lparr>isSubmitting := True, lastSubmitTime := Some now\<rparr>)
        (item_id item) Sending None now)\<lparr>inflight := Some item\<rparr>"
| "updateItemStatus s itemId st msg now =
     (case find (\<lambda>i. item_id i = itemId) (queue s) of
        None \<Rightarrow> s
      | Some item \<Rightarrow>
          updateUI (saveQueue (s\<lparr>queue :=
            upd_first (\<lambda>i. item_id i = itemId) (set_status st msg now) (queue s)\<rparr>)) now)"
  by pat_completeness auto
termination
  by (relation "measure (\<lambda>x. case x of
           Inl (Inl (s, now)) \<Rightarrow> (if isPaused s then 4 else 0)
         | Inl (Inr (s, now)) \<Rightarrow> (if isPaused s then 4 else 0) + 3
         | Inr (Inl (s, item, now)) \<Rightarrow> (if isPaused s then 4 else 0) + 2
         | Inr (Inr (s, itemId, st, msg, now)) \<Rightarrow> (if isPaused s then 4 else 0) + 1)")
     (auto simp: saveQueue_def handleExtensionInvalidated_def)

declare updateUI.simps [simp del] checkAndSubmit.simps [simp del]
  submitQueueItem_begin.simps [simp del] updateItemStatus.simps [simp del]

subsection \<open>Queue management\<close>

fun findIndex :: "('a \<Rightarrow> bool) \<Rightarrow> 'a list \<Rightarrow> nat option" where
  "findIndex P [] = None"
| "findIndex P (x # xs) = (if P x then Some 0 else map_option Suc (findIndex P xs))"

fun remove_first :: "('a \<Rightarrow> bool) \<Rightarrow> 'a list \<Rightarrow> 'a list" where
  "remove_first P [] = []"
| "remove_first P (x # xs) = (if P x then xs else x # remove_first P xs)"

definition swap :: "nat \<Rightarrow> nat \<Rightarrow> 'a list \<Rightarrow> 'a list" where
  "swap i j xs = xs[i := xs ! j, j := xs ! i]"

fun set_prop :: "string \<Rightarrow> jsval \<Rightarrow> (string \<times> jsval) list \<Rightarrow> (string \<times> jsval) list" where
  "set_prop k v [] = [(k, v)]"
| "set_prop k v ((k', v') # r) = (if k = k' then (k, v) # r else (k', v') # set_prop k v r)"

text \<open>The object literal of \<open>addToQueue\<close>: four defaults, then the spread of \<open>options\<close>.\<close>

definition item_options :: "(string \<times> jsval) list \<Rightarrow> (string \<times> jsval) list" where
  "item_options opts =
     fold (\<lambda>(k, v). set_prop k v) opts
       [(''orientation'', js_or (get_prop (JObj opts) ''orientation'') (JStr ''portrait'')),
        (''size'', js_or (get_prop (JObj opts) ''size'') (JStr ''small'')),
        (''n_frames'', js_or (get_prop (JObj opts) ''n_frames'') (JNum 300)),
        (''model'', js_or (get_prop (JObj opts) ''model'') (JStr ''sy_8''))]"

definition new_item :: "string \<Rightarrow> (string \<times> jsval) list \<Rightarrow> string \<Rightarrow> int \<Rightarrow> queue_item" where
  "new_item p opts newId now =
     \<lparr>item_id = newId, prompt = trim p, options = item_options opts, status = Queued,
      errorMessage = None, retryCount = 0, createdAt = now, updatedAt = now\<rparr>"

text \<open>\<open>newId\<close> is the id the runtime generates from the clock and \<open>Math.random\<close>.\<close>

definition addToQueue ::
  "state \<Rightarrow> string \<Rightarrow> (string \<times> jsval) list \<Rightarrow> string \<Rightarrow> int \<Rightarrow> state" where
  "addToQueue s p opts newId now =
     checkAndSubmit
       (updateUI (saveQueue (s\<lparr>queue := queue s @ [new_item p opts newId now]\<rparr>)) now) now"

definition removeFromQueue :: "state \<Rightarrow> string \<Rightarrow> int \<Rightarrow> state" where
  "removeFromQueue s itemId now =
     (case findIndex (\<lambda>item. item_id item = itemId) (queue s) of
        None \<Rightarrow> s
      | Some index \<Rightarrow>
          updateUI (saveQueue (s\<lparr>queue := remove_first (\<lambda>item. item_id item = itemId) (queue s)\<rparr>)) now)"

definition moveUp :: "state \<Rightarrow> string \<Rightarrow> int \<Rightarrow> state" where
  "moveUp s itemId now =
     (case findIndex (\<lambda>item. item_id item = itemId) (queue s) of
        None \<Rightarrow> s
      | Some index \<Rightarrow>
          if index > 0
          then updateUI (saveQueue (s\<lparr>queue := swap (index - 1) index (queue s)\<rparr>)) now
          else s)"

definition moveDown :: "state \<Rightarrow> string \<Rightarrow> int \<Rightarrow> state" where
  "moveDown s itemId now =
     (case findIndex (\<lambda>item. item_id item = itemId) (queue s) of
        None \<Rightarrow> s
      | Some index \<Rightarrow>
          if index + 1 < length (queue s)
          then updateUI (saveQueue (s\<lparr>queue := swap index (index + 1) (queue s)\<rparr>)) now
          else s)"

text \<open>The handlers of the panel that change the queue.\<close>

definition clearErrors_click :: "state \<Rightarrow> int \<Rightarrow> state" where
  "clearErrors_click s now =
     updateUI (saveQueue (s\<lparr>queue := filter (\<lambda>item. status item \<noteq> Error) (queue s)\<rparr>)) now"

definition addBtn_click :: "state \<Rightarrow> string \<Rightarrow> string \<Rightarrow> string \<Rightarrow> int \<Rightarrow> state" where
  "addBtn_click s input orientation newId now =
     (let p = trim input
      in if p \<noteq> [] then addToQueue s p [(''orientation'', JStr orientation)] newId now else s)"

text \<open>\<open>soraInput\<close> is the text of the page's own prompt field, \<open>None\<close> when no field is found.\<close>

definition queueCurrentPrompt :: "state \<Rightarrow> string option \<Rightarrow> string \<Rightarrow> int \<Rightarrow> state" where
  "queueCurrentPrompt s soraInput newId now =
     (case soraInput of
        None \<Rightarrow> s
      | Some p \<Rightarrow> if trim p \<noteq> [] then addToQueue s (trim p) [] newId now else s)"


subsection \<open>The end of a submission\<close>

text \<open>
  What the background worker answers to \<open>EXECUTE_SUBMIT_PROMPT\<close>, reduced to the fields
  the content script reads. The awaited call may also be rejected with a message, as it
  is when the extension context is lost.
\<close>

record submit_result =
  r_success :: bool
  r_error :: "string option"
  r_message :: "string option"
  r_resetTime :: "int option"

datatype outcome = Resolved submit_result | Rejected string

text \<open>\<open>jitter\<close> is \<open>Math.random() * BACKOFF_JITTER_MS\<close>; the timer is kept by its due time.\<close>

definition scheduleBackoffRetry :: "state \<Rightarrow> int \<Rightarrow> int \<Rightarrow> state" where
  "scheduleBackoffRetry s jitter now =
     s\<lparr>backoffTimers := backoffTimers s @ [now + BACKOFF_BASE_MS + jitter]\<rparr>"

definition message_or :: "string option \<Rightarrow> string \<Rightarrow> string" where
  "message_or m d = (case m of None \<Rightarrow> d | Some t \<Rightarrow> if t = [] then d else t)"

definition handleSubmitError ::
  "state \<Rightarrow> queue_item \<Rightarrow> submit_result \<Rightarrow> int \<Rightarrow> int \<Rightarrow> state" where
  "handleSubmitError s item result jitter now =
     updateUI
       (if r_error result = Some ''CONCURRENT_LIMIT'' then
          scheduleBackoffRetry
            ((updateItemStatus s (item_id item) Queued None now)
               \<lparr>activeTaskCount := MAX_CONCURRENT_TASKS\<rparr>) jitter now
        else if r_error result = Some ''DAILY_LIMIT'' then
          saveQueue
            (updateItemStatus
               (s\<lparr>isPaused := True, pauseReason := Some ''daily_limit'',
                  dailyLimitResetTime := r_resetTime result\<rparr>)
               (item_id item) Queued None now)
        else if r_error result = Some ''NO_TOKEN'' \<or> r_error result = Some ''TOKEN_STALE''
                \<or> r_error result = Some ''AUTH_ERROR'' then
          updateItemStatus (s\<lparr>hasValidToken := False\<rparr>) (item_id item) Error
            (Some ''Token needed'') now
        else if r_error result = Some ''RATE_LIMIT_UNKNOWN'' then
          (if retryCount item < 3 then
             scheduleBackoffRetry (updateItemStatus s (item_id item) Queued None now) jitter now
           else
             updateItemStatus s (item_id item) Error (Some ''Rate limit (max retries)'') now)
        else
          updateItemStatus s (item_id item) Error
            (Some (message_or (r_message result) ''Unknown error'')) now)
       now"

text \<open>
  \<open>submitQueueItem\<close> from its \<open>await\<close> on: the branches of \<open>try\<close>, the \<open>catch\<close> and the
  \<open>finally\<close>. A rejection has passed through \<open>sendToBackground\<close> before the \<open>catch\<close>
  sees it. Without a suspended submission there is nothing to continue.
\<close>

definition submitQueueItem_end :: "state \<Rightarrow> outcome \<Rightarrow> int \<Rightarrow> int \<Rightarrow> state" where
  "submitQueueItem_end s out jitter now =
     (case inflight s of
        None \<Rightarrow> s
      | Some item \<Rightarrow>
          (case out of
             Resolved result \<Rightarrow>
               if r_success result then
                 updateUI
                   ((removeFromQueue s (item_id item) now)
                      \<lparr>activeTaskCount := activeTaskCount (removeFromQueue s (item_id item) now) + 1\<rparr>)
                   now
               else handleSubmitError s item result jitter now
           | Rejected msg \<Rightarrow>
               updateItemStatus (sendToBackground_rejected s msg) (item_id item) Error (Some msg) now)
          \<lparr>isSubmitting := False, inflight := None\<rparr>)"

text \<open>The callback of a backoff timer that is due.\<close>

definition backoffTimer_fired :: "state \<Rightarrow> int \<Rightarrow> int \<Rightarrow> state" where
  "backoffTimer_fired s due now =
     (if due \<in> set (backoffTimers s) \<and> due \<le> now
      then (if \<not> extensionInvalidated s
            then checkAndSubmit (s\<lparr>backoffTimers := remove1 due (backoffTimers s)\<rparr>) now
            else s\<lparr>backoffTimers := remove1 due (backoffTimers s)\<rparr>)
      else s)"

subsection \<open>Pause, resume and the other handlers\<close>

definition toggleAutomation_click :: "state \<Rightarrow> int \<Rightarrow> state" where
  "toggleAutomation_click s now =
     updateUI
       (if isPaused s \<and> pauseReason s = Some ''daily_limit'' then
          checkAndSubmit (saveQueue (s\<lparr>isPaused := False, pauseReason := None\<rparr>)) now
        else
          (let s1 = saveQueue (s\<lparr>isAutomationEnabled := \<not> isAutomationEnabled s\<rparr>)
           in if isAutomationEnabled s1 then checkAndSubmit s1 now else s1))
       now"

definition retryNow_click :: "state \<Rightarrow> int \<Rightarrow> state" where
  "retryNow_click s now =
     updateUI (checkAndSubmit (saveQueue (s\<lparr>isPaused := False, pauseReason := None\<rparr>)) now) now"

text \<open>The sweep that \<open>init\<close> runs every 30 seconds, until the timers are stopped.\<close>

definition dailyLimit_sweep :: "state \<Rightarrow> int \<Rightarrow> state" where
  "dailyLimit_sweep s now =
     (if extensionInvalidated s then s
      else if js_and_num (dailyLimitResetTime s) (\<lambda>t. now \<ge> t) then
        updateUI
          (if pauseReason s = Some ''daily_limit'' then
             checkAndSubmit
               (saveQueue (s\<lparr>dailyLimitResetTime := None, isPaused := False, pauseReason := None\<rparr>)) now
           else s\<lparr>dailyLimitResetTime := None\<rparr>)
          now
      else s)"

text \<open>\<open>toggleAutomation\<close> of the popup works on the storage entry alone.\<close>

definition popup_toggleAutomation :: "persisted \<Rightarrow> persisted" where
  "popup_toggleAutomation d =
     (if p_isPaused d = Some True then d\<lparr>p_isPaused := Some False, p_pauseReason := None\<rparr>
      else if p_isAutomationEnabled d = Some False then d\<lparr>p_isAutomationEnabled := Some True\<rparr>
      else d\<lparr>p_isAutomationEnabled := Some False\<rparr>)"

text \<open>The listener of \<open>chrome.storage.onChanged\<close> in the content script.\<close>

definition onStorageChanged :: "state \<Rightarrow> persisted \<Rightarrow> int \<Rightarrow> state" where
  "onStorageChanged s newData now =
     (if extensionInvalidated s then s else
      let s1 = (case p_isAutomationEnabled newData of
                  None \<Rightarrow> s
                | Some b \<Rightarrow>
                    if b \<noteq> isAutomationEnabled s then
                      (if b then checkAndSubmit (s\<lparr>isAutomationEnabled := b\<rparr>) now
                       else s\<lparr>isAutomationEnabled := b\<rparr>)
                    else s);
          s2 = (case p_isPaused newData of
                  None \<Rightarrow> s1
                | Some b \<Rightarrow> s1\<lparr>isPaused := b, pauseReason := p_pauseReason newData\<rparr>);
          s3 = (case p_queue newData of None \<Rightarrow> s2 | Some q \<Rightarrow> s2\<lparr>queue := q\<rparr>)
      in updateUI s3 now)"

text \<open>A click on the popup's button, seen from the content script: the write, then the listener.\<close>

definition popup_toggle :: "state \<Rightarrow> int \<Rightarrow> state" where
  "popup_toggle s now =
     onStorageChanged (s\<lparr>storage := popup_toggleAutomation (storage s)\<rparr>)
       (popup_toggleAutomation (storage s)) now"

text \<open>
  \<open>pollPendingTasks\<close> with a successful answer, the two token messages of the background
  worker, the answer to \<open>registerAsController\<close>, and \<open>sendHeartbeat\<close> with its answer.
\<close>

definition poll_succeeded :: "state \<Rightarrow> int \<Rightarrow> int \<Rightarrow> state" where
  "poll_succeeded s activeCount now =
     (if extensionInvalidated s then s
      else if \<not> isController s then s
      else checkAndSubmit
             (updateUI (s\<lparr>activeTaskCount := activeCount, lastPollTime := Some now,
                          mainWorldReady := True\<rparr>) now) now)"

definition token_captured :: "state \<Rightarrow> bool \<Rightarrow> int \<Rightarrow> state" where
  "token_captured s hasToken now =
     (if extensionInvalidated s then s
      else checkAndSubmit
             (updateUI (s\<lparr>hasValidToken := hasToken, lastTokenCapture := Some now\<rparr>) now) now)"

definition token_cleared :: "state \<Rightarrow> int \<Rightarrow> state" where
  "token_cleared s now =
     (if extensionInvalidated s then s
      else updateUI (s\<lparr>hasValidToken := False, lastTokenCapture := None\<rparr>) now)"

definition controller_answer :: "state \<Rightarrow> bool \<Rightarrow> state" where
  "controller_answer s b = s\<lparr>isController := b\<rparr>"

definition heartbeat_answer :: "state \<Rightarrow> bool \<Rightarrow> state" where
  "heartbeat_answer s b =
     (if extensionInvalidated s then s
      else if \<not> b \<and> isController s then s\<lparr>isController := False\<rparr>
      else if b \<and> \<not> isController s then s\<lparr>isController := True\<rparr>
      else s)"

subsection \<open>Start of the script\<close>

definition initial_state :: "persisted \<Rightarrow> state" where
  "initial_state d =
     \<lparr>queue = [], isAutomationEnabled = True, isPaused = False, pauseReason = None,
      dailyLimitResetTime = None, hasValidToken = False, lastTokenCapture = None,
      activeTaskCount = 0, lastPollTime = None, lastSubmitTime = None, isSubmitting = False,
      isController = False, mainWorldReady = False, storage = d, inflight = None,
      backoffTimers = [], extensionInvalidated = False, contextValid = True\<rparr>"

definition reset_sending :: "queue_item \<Rightarrow> queue_item" where
  "reset_sending item = (if status item = Sending then item\<lparr>status := Queued\<rparr> else item)"

text \<open>
  \<open>loadQueue\<close> with the callback of \<open>chrome.storage.local.get\<close>, which throws in an
  invalid context.
\<close>

definition loadQueue :: "state \<Rightarrow> int \<Rightarrow> state" where
  "loadQueue s now =
     (if extensionInvalidated s then s
      else if \<not> contextValid s then
        (if isExtensionContextInvalidated s then handleExtensionInvalidated s else s)
      else
      let d = storage s;
          s1 = s\<lparr>queue := map reset_sending (case p_queue d of None \<Rightarrow> [] | Some q \<Rightarrow> q),
                 dailyLimitResetTime :=
                   (if truthy_num (p_dailyLimitResetTime d) then p_dailyLimitResetTime d else None),
                 isPaused := (p_isPaused d = Some True),
                 pauseReason := (if p_pauseReason d = Some [] then None else p_pauseReason d),
                 isAutomationEnabled := (p_isAutomationEnabled d \<noteq> Some False)\<rparr>;
          s2 = (if js_and_num (dailyLimitResetTime s1) (\<lambda>t. now \<ge> t) then
                  (if pauseReason s1 = Some ''daily_limit''
                   then s1\<lparr>dailyLimitResetTime := None, isPaused := False, pauseReason := None\<rparr>
                   else s1\<lparr>dailyLimitResetTime := None\<rparr>)
                else s1)
      in saveQueue s2)"

text \<open>
  A reload of the page: a new script, in a valid context, starts from the storage entry as
  it stands.
\<close>

definition restart :: "state \<Rightarrow> int \<Rightarrow> state" where
  "restart s now = loadQueue (initial_state (storage s)) now"

subsection \<open>Runs of one instance\<close>

text \<open>
  The events of one instance. Beside the calls into the script there are three events of
  its environment: \<open>ExtensionReloaded\<close> (the extension is reloaded or updated, the context
  of the script is no longer valid), \<open>StorageWritten d\<close> (another script, the popup or the
  content script of another tab, writes \<open>d\<close> to the storage entry) and \<open>CallRejected msg\<close>
  (a call to the background worker other than a submission is rejected).
  \<open>StorageChanged d now\<close> is a call of the listener of \<open>chrome.storage.onChanged\<close> with the
  new value \<open>d\<close>: the notification of a write, of this script or of another, which arrives
  some time after the write.
\<close>

datatype event =
    Tick int
  | Render int
  | SubmitEnds outcome int int
  | TimerFires int int
  | Add string "(string \<times> jsval) list" string int
  | AddClick string string string int
  | QueueCurrent "string option" string int
  | Remove string int
  | MoveUp string int
  | MoveDown string int
  | ClearErrors int
  | ToggleClick int
  | RetryNowClick int
  | Sweep int
  | PollOk int int
  | TokenCaptured bool int
  | TokenCleared int
  | ControllerAnswer bool
  | HeartbeatAnswer bool
  | CallRejected string
  | ExtensionReloaded
  | StorageWritten persisted
  | StorageChanged persisted int
  | Restart int

fun apply_event :: "event \<Rightarrow> state \<Rightarrow> state" where
  "apply_event (Tick now) s = checkAndSubmit s now"
| "apply_event (Render now) s = updateUI s now"
| "apply_event (SubmitEnds out jitter now) s = submitQueueItem_end s out jitter now"
| "apply_event (TimerFires due now) s = backoffTimer_fired s due now"
| "apply_event (Add p opts newId now) s = addToQueue s p opts newId now"
| "apply_event (AddClick input orientation newId now) s = addBtn_click s input orientation newId now"
| "apply_event (QueueCurrent soraInput newId now) s = queueCurrentPrompt s soraInput newId now"
| "apply_event (Remove itemId now) s = removeFromQueue s itemId now"
| "apply_event (MoveUp itemId now) s = moveUp s itemId now"
| "apply_event (MoveDown itemId now) s = moveDown s itemId now"
| "apply_event (ClearErrors now) s = clearErrors_click s now"
| "apply_event (ToggleClick now) s = toggleAutomation_click s now"
| "apply_event (RetryNowClick now) s = retryNow_click s now"
| "apply_event (Sweep now) s = dailyLimit_sweep s now"
| "apply_event (PollOk activeCount now) s = poll_succeeded s activeCount now"
| "apply_event (TokenCaptured hasToken now) s = token_captured s hasToken now"
| "apply_event (TokenCleared now) s = token_cleared s now"
| "apply_event (ControllerAnswer b) s = controller_answer s b"
| "apply_event (HeartbeatAnswer b) s = heartbeat_answer s b"
| "apply_event (CallRejected msg) s = sendToBackground_rejected s msg"
| "apply_event ExtensionReloaded s = s\<lparr>contextValid := False\<rparr>"
| "apply_event (StorageWritten d) s = s\<lparr>storage := d\<rparr>"
| "apply_event (StorageChanged newData now) s = onStorageChanged s newData now"
| "apply_event (Restart now) s = restart s now"










text \<open>The status of the item with a given id, \<open>None\<close> when the queue has no such item.\<close>

definition qstatus :: "queue_item list \<Rightarrow> string \<Rightarrow> item_status option" where
  "qstatus q i = map_option status (find (\<lambda>item. item_id item = i) q)"


section \<open>Notions for the proofs\<close>

text \<open>
  \<open>synced\<close>: the storage entry holds the queue of the script. \<open>live\<close>: \<open>saveQueue\<close>
  writes. \<open>begin_submit\<close>: the state in which \<open>checkAndSubmit\<close> leaves the script when it
  submits an item.
\<close>

definition synced :: "state \<Rightarrow> bool" where
  "synced s = (p_queue (storage s) = Some (queue s))"

definition live :: "state \<Rightarrow> bool" where
  "live s = (contextValid s \<and> \<not> extensionInvalidated s)"

definition begin_submit :: "state \<Rightarrow> queue_item \<Rightarrow> int \<Rightarrow> state" where
  "begin_submit s it now =
     (saveQueue (s\<lparr>isSubmitting := True, lastSubmitTime := Some now,
        queue := upd_first (\<lambda>i. item_id i = item_id it) (set_status Sending None now) (queue s)\<rparr>))
     \<lparr>inflight := Some it\<rparr>"

text \<open>
  What the functions of the script do to the storage entry and to the two context
  fields: the context stays as it is and the flag, once set, stays set; the flag is not
  set while the context is valid; and either the script saves and the entry then holds
  its queue, or the entry is what it was and the queue too, unless the flag is set.
\<close>

definition store_rel :: "state \<Rightarrow> state \<Rightarrow> bool" where
  "store_rel s s' =
     (contextValid s' = contextValid s \<and>
      (extensionInvalidated s \<longrightarrow> extensionInvalidated s') \<and>
      (contextValid s \<longrightarrow> extensionInvalidated s' = extensionInvalidated s) \<and>
      ((live s \<and> synced s') \<or>
       (storage s' = storage s \<and> (queue s' = queue s \<or> extensionInvalidated s'))))"

text \<open>
  What a call of \<open>checkAndSubmit\<close> or \<open>updateUI\<close> may do to the queue, the suspended
  submission and the flag \<open>isSubmitting\<close>: nothing, or, when no submission is
  suspended, mark the first queued item as sending and suspend on it.
\<close>

definition core_same :: "state \<Rightarrow> state \<Rightarrow> bool" where
  "core_same s s' = (queue s' = queue s \<and> inflight s' = inflight s \<and> isSubmitting s' = isSubmitting s)"

definition tick_rel :: "state \<Rightarrow> state \<Rightarrow> bool" where
  "tick_rel s s' =
     (store_rel s s' \<and>
      (core_same s s' \<or>
       (\<not> isSubmitting s \<and> isSubmitting s' \<and>
        (\<exists>it now. find (\<lambda>i. status i = Queued) (queue s) = Some it \<and>
           queue s' = upd_first (\<lambda>i. item_id i = item_id it) (set_status Sending None now) (queue s) \<and>
           inflight s' = Some it))))"









section \<open>The admission checks as the specification lists them\<close>

text \<open>
  Each check as the condition to pass, in the order of the specification, and the number
  of the first check that fails.
\<close>

definition spec_checks :: "(state \<Rightarrow> int \<Rightarrow> bool) list" where
  "spec_checks =
     [\<lambda>s now. isAutomationEnabled s,
      \<lambda>s now. \<not> isPaused s,
      \<lambda>s now. \<not> isSubmitting s,
      \<lambda>s now. hasValidToken s,
      \<lambda>s now. isController s,
      \<lambda>s now. activeTaskCount s < 3,
      \<lambda>s now. (case dailyLimitResetTime s of None \<Rightarrow> True | Some t \<Rightarrow> now \<ge> t),
      \<lambda>s now. (case lastSubmitTime s of None \<Rightarrow> True | Some t \<Rightarrow> now - t \<ge> 2000)]"

definition first_failing :: "state \<Rightarrow> int \<Rightarrow> nat option" where
  "first_failing s now = map_option Suc (findIndex (\<lambda>c. \<not> c s now) spec_checks)"

section \<open>Example states and inputs\<close>

text \<open>
  A storage entry with one queued item; a script that has loaded it, holds a token and is
  the controller; and the same script after a Submit tick at time 5000.
\<close>

definition example_item :: queue_item where
  "example_item =
     \<lparr>item_id = ''q_1'', prompt = ''a sunset'', options = item_options [], status = Queued,
      errorMessage = None, retryCount = 0, createdAt = 1000, updatedAt = 1000\<rparr>"

definition example_storage :: persisted where
  "example_storage =
     \<lparr>p_queue = Some [example_item], p_dailyLimitResetTime = None, p_isPaused = Some False,
      p_pauseReason = None, p_isAutomationEnabled = Some True\<rparr>"

definition example_ready :: state where
  "example_ready =
     apply_event (ControllerAnswer True)
       (apply_event (TokenCaptured True 2000) (loadQueue (initial_state example_storage) 1500))"

definition example_sending :: state where
  "example_sending = apply_event (Tick 5000) example_ready"

text \<open>
  An answer of the background worker for an unclassified 429. \<open>retry_round\<close> is one
  attempt that ends with this answer one second later; \<open>retry_rounds n\<close> is \<open>n\<close> such
  attempts, 20 seconds apart. \<open>loop_state\<close> is the shape of the state between attempts.
\<close>

definition unknown_failure :: submit_result where
  "unknown_failure =
     \<lparr>r_success = False, r_error = Some ''RATE_LIMIT_UNKNOWN'',
      r_message = Some ''Rate limit reached.'', r_resetTime = None\<rparr>"

definition retry_round :: "state \<Rightarrow> int \<Rightarrow> state" where
  "retry_round s now =
     submitQueueItem_end (checkAndSubmit s now) (Resolved unknown_failure) 0 (now + 1000)"

fun retry_rounds :: "nat \<Rightarrow> state \<Rightarrow> int \<Rightarrow> state" where
  "retry_rounds 0 s now = s"
| "retry_rounds (Suc n) s now = retry_rounds n (retry_round s now) (now + 20000)"

definition loop_state :: "int \<Rightarrow> int option \<Rightarrow> int list \<Rightarrow> state" where
  "loop_state u lst timers =
     example_ready\<lparr>queue := [example_item\<lparr>updatedAt := u\<rparr>], lastSubmitTime := lst,
       backoffTimers := timers,
       storage := example_storage\<lparr>p_queue := Some [example_item\<lparr>updatedAt := u\<rparr>]\<rparr>\<rparr>"

text \<open>
  An answer for an exhausted daily limit that resets at time 126000, and the script
  paused by it.
\<close>

definition daily_limit_failure :: submit_result where
  "daily_limit_failure =
     \<lparr>r_success = False, r_error = Some ''DAILY_LIMIT'',
      r_message = Some ''Daily generation limit reached.'', r_resetTime = Some 126000\<rparr>"

definition example_paused :: state where
  "example_paused = apply_event (SubmitEnds (Resolved daily_limit_failure) 0 6000) example_sending"

text \<open>
  A lease held by tab 1 whose last heartbeat is 29 seconds old at time 30000.
\<close>

definition stale_lease :: lease where
  "stale_lease = \<lparr>controllerTabId = Some 1, controllerHeartbeat = Some 1000\<rparr>"

definition every_tab_exists :: "int \<Rightarrow> bool" where
  "every_tab_exists t = True"

text \<open>
  Bodies of 429 answers.
\<close>

definition exhausted_body :: jsval where
  "exhausted_body = JObj [(''type'', JStr ''rate_limit_exhausted''), (''resetSeconds'', JNum 120)]"

definition exhausted_body_nested :: jsval where
  "exhausted_body_nested =
     JObj [(''type'', JStr ''rate_limit_exhausted''),
           (''rate_limit_and_credit_balance'', JObj [(''access_resets_in_seconds'', JNum 120)])]"

definition code_body :: jsval where
  "code_body = JObj [(''error'', JObj [(''code'', JStr ''too_many_concurrent_tasks'')])]"

definition phrase_body :: jsval where
  "phrase_body =
     JObj [(''error'', JObj [(''message'', JStr ''you can only generate 3 videos at a time'')])]"

definition maximum_body :: jsval where
  "maximum_body =
     JObj [(''error'', JObj [(''message'', JStr ''Maximum number of CONCURRENT video generations reached''),
                             (''details'', JObj [(''num_tasks'', JNum 5)])])]"

text \<open>
  A script started on a storage without an entry, and storage areas without a key.
\<close>

definition no_entry :: persisted where
  "no_entry =
     \<lparr>p_queue = None, p_dailyLimitResetTime = None, p_isPaused = None, p_pauseReason = None,
      p_isAutomationEnabled = None\<rparr>"

definition example_fresh :: state where
  "example_fresh = loadQueue (initial_state no_entry) 1000"

definition empty_stores :: stores where
  "empty_stores = \<lparr>session_area = Map.empty, local_area = Map.empty\<rparr>"
















section \<open>Saving and the extension context\<close>

lemma handle_sel [simp]:
  "queue (handleExtensionInvalidated s) = queue s"
  "isAutomationEnabled (handleExtensionInvalidated s) = isAutomationEnabled s"
  "isPaused (handleExtensionInvalidated s) = isPaused s"
  "pauseReason (handleExtensionInvalidated s) = pauseReason s"
  "dailyLimitResetTime (handleExtensionInvalidated s) = dailyLimitResetTime s"
  "hasValidToken (handleExtensionInvalidated s) = hasValidToken s"
  "activeTaskCount (handleExtensionInvalidated s) = activeTaskCount s"
  "lastSubmitTime (handleExtensionInvalidated s) = lastSubmitTime s"
  "isSubmitting (handleExtensionInvalidated s) = isSubmitting s"
  "isController (handleExtensionInvalidated s) = isController s"
  "storage (handleExtensionInvalidated s) = storage s"
  "inflight (handleExtensionInvalidated s) = inflight s"
  "backoffTimers (handleExtensionInvalidated s) = backoffTimers s"
  "contextValid (handleExtensionInvalidated s) = contextValid s"
  "extensionInvalidated (handleExtensionInvalidated s)"
  by (simp_all add: handleExtensionInvalidated_def)

lemma rejected_sel [simp]:
  "queue (sendToBackground_rejected s msg) = queue s"
  "isSubmitting (sendToBackground_rejected s msg) = isSubmitting s"
  "storage (sendToBackground_rejected s msg) = storage s"
  "inflight (sendToBackground_rejected s msg) = inflight s"
  "contextValid (sendToBackground_rejected s msg) = contextValid s"
  by (simp_all add: sendToBackground_rejected_def)

lemma saveQueue_sel [simp]:
  "queue (saveQueue s) = queue s"
  "isAutomationEnabled (saveQueue s) = isAutomationEnabled s"
  "isPaused (saveQueue s) = isPaused s"
  "pauseReason (saveQueue s) = pauseReason s"
  "dailyLimitResetTime (saveQueue s) = dailyLimitResetTime s"
  "hasValidToken (saveQueue s) = hasValidToken s"
  "activeTaskCount (saveQueue s) = activeTaskCount s"
  "lastSubmitTime (saveQueue s) = lastSubmitTime s"
  "isSubmitting (saveQueue s) = isSubmitting s"
  "isController (saveQueue s) = isController s"
  "inflight (saveQueue s) = inflight s"
  "backoffTimers (saveQueue s) = backoffTimers s"
  "contextValid (saveQueue s) = contextValid s"
  by (simp_all add: saveQueue_def isExtensionContextInvalidated_def)

lemma saveQueue_flag:
  "extensionInvalidated (saveQueue s) = (extensionInvalidated s \<or> \<not> contextValid s)"
  by (simp add: saveQueue_def isExtensionContextInvalidated_def handleExtensionInvalidated_def)

lemma saveQueue_storage:
  "storage (saveQueue s) =
     (if live s then
        \<lparr>p_queue = Some (queue s), p_dailyLimitResetTime = dailyLimitResetTime s,
         p_isPaused = Some (isPaused s), p_pauseReason = pauseReason s,
         p_isAutomationEnabled = Some (isAutomationEnabled s)\<rparr>
      else storage s)"
  by (simp add: saveQueue_def isExtensionContextInvalidated_def live_def)

lemma store_rel_refl: "store_rel s s"
  by (simp add: store_rel_def)

lemma store_rel_trans:
  assumes "store_rel s s'" "store_rel s' s''"
  shows "store_rel s s''"
proof -
  from assms have cv: "contextValid s' = contextValid s" "contextValid s'' = contextValid s"
    by (simp_all add: store_rel_def)
  from assms have fl: "extensionInvalidated s \<longrightarrow> extensionInvalidated s'"
    "extensionInvalidated s' \<longrightarrow> extensionInvalidated s''"
    "contextValid s \<longrightarrow> extensionInvalidated s' = extensionInvalidated s"
    "contextValid s \<longrightarrow> extensionInvalidated s'' = extensionInvalidated s'"
    by (simp_all add: store_rel_def)
  from assms(1) have a: "(live s \<and> synced s') \<or>
       (storage s' = storage s \<and> (queue s' = queue s \<or> extensionInvalidated s'))"
    by (simp add: store_rel_def)
  from assms(2) have b: "(live s' \<and> synced s'') \<or>
       (storage s'' = storage s' \<and> (queue s'' = queue s' \<or> extensionInvalidated s''))"
    by (simp add: store_rel_def)
  have ls: "live s' \<Longrightarrow> live s" using cv fl by (auto simp: live_def)
  have c: "(live s \<and> synced s'') \<or>
       (storage s'' = storage s \<and> (queue s'' = queue s \<or> extensionInvalidated s''))"
  proof (cases "live s' \<and> synced s''")
    case True
    then show ?thesis using ls by simp
  next
    case False
    with b have b2: "storage s'' = storage s'" "queue s'' = queue s' \<or> extensionInvalidated s''"
      by auto
    show ?thesis
    proof (cases "live s \<and> synced s'")
      case True
      then have "\<not> extensionInvalidated s''" using fl cv by (auto simp: live_def)
      with b2 True show ?thesis by (simp add: synced_def)
    next
      case False
      with a have "storage s' = storage s" "queue s' = queue s \<or> extensionInvalidated s'" by auto
      with b2 fl show ?thesis by auto
    qed
  qed
  show ?thesis using cv fl c by (simp add: store_rel_def)
qed


lemma store_rel_cong:
  "store_rel s t \<Longrightarrow> storage t' = storage t \<Longrightarrow> queue t' = queue t \<Longrightarrow>
   contextValid t' = contextValid t \<Longrightarrow> extensionInvalidated t' = extensionInvalidated t \<Longrightarrow>
   store_rel s t'"
  by (simp add: store_rel_def synced_def)

lemma store_save:
  assumes "storage t = storage s" "contextValid t = contextValid s"
    "extensionInvalidated t = extensionInvalidated s"
  shows "store_rel s (saveQueue t)"
proof (cases "live s")
  case True
  then have "live t" using assms by (simp add: live_def)
  then have "synced (saveQueue t)" by (simp add: synced_def saveQueue_storage)
  then show ?thesis using True assms by (simp add: store_rel_def saveQueue_flag live_def)
next
  case False
  then have "\<not> live t" using assms by (simp add: live_def)
  then have "storage (saveQueue t) = storage s" using assms by (simp add: saveQueue_storage)
  then show ?thesis using False assms by (auto simp: store_rel_def saveQueue_flag live_def)
qed

section \<open>The Submit tick, flattened\<close>

lemma find_by_id_mem: "it \<in> set q \<Longrightarrow> find (\<lambda>i. item_id i = item_id it) q \<noteq> None"
  by (auto simp: find_None_iff)

lemma find_SomeD: "find P xs = Some x \<Longrightarrow> x \<in> set xs \<and> P x"
  by (auto simp: find_Some_iff)

lemma admission_NoneD: "admission s now = None \<Longrightarrow> \<not> isPaused s \<and> \<not> isSubmitting s"
  by (auto simp: admission_def split: if_splits)

lemma updateUI_idle: "\<not> isPaused s \<Longrightarrow> updateUI s now = s"
  by (simp add: updateUI.simps)

lemma checkAndSubmit_eq:
  "checkAndSubmit s now =
     (if admission s now = None then
        (case find (\<lambda>item. status item = Queued) (queue s) of
           None \<Rightarrow> s | Some it \<Rightarrow> begin_submit s it now)
      else s)"
proof (cases "admission s now = None")
  case False
  then show ?thesis by (auto simp: checkAndSubmit.simps)
next
  case True
  note adm = admission_NoneD[OF True]
  show ?thesis
  proof (cases "find (\<lambda>item. status item = Queued) (queue s)")
    case None
    with True show ?thesis by (simp add: checkAndSubmit.simps)
  next
    case (Some it)
    from find_SomeD[OF Some] have mem: "it \<in> set (queue s)" by simp
    from find_by_id_mem[OF mem] obtain x where
      fx: "find (\<lambda>i. item_id i = item_id it) (queue s) = Some x" by auto
    show ?thesis using True Some fx adm
      by (simp add: checkAndSubmit.simps submitQueueItem_begin.simps updateItemStatus.simps
          begin_submit_def updateUI_idle)
  qed
qed


lemma tick_rel_refl: "tick_rel s s"
  by (simp add: tick_rel_def core_same_def store_rel_refl)


lemma tick_rel_trans:
  assumes "tick_rel s s'" "tick_rel s' s''"
  shows "tick_rel s s''"
proof -
  from assms have st: "store_rel s s''" using store_rel_trans by (auto simp: tick_rel_def)
  from assms have "core_same s s'' \<or>
       (\<not> isSubmitting s \<and> isSubmitting s'' \<and>
        (\<exists>it now. find (\<lambda>i. status i = Queued) (queue s) = Some it \<and>
           queue s'' = upd_first (\<lambda>i. item_id i = item_id it) (set_status Sending None now) (queue s) \<and>
           inflight s'' = Some it))"
    unfolding tick_rel_def core_same_def by (elim conjE disjE) auto
  with st show ?thesis by (simp add: tick_rel_def)
qed

lemma begin_submit_sel:
  "queue (begin_submit s it now) =
     upd_first (\<lambda>i. item_id i = item_id it) (set_status Sending None now) (queue s)"
  "inflight (begin_submit s it now) = Some it"
  "isSubmitting (begin_submit s it now)"
  by (simp_all add: begin_submit_def)

lemma begin_submit_store: "store_rel s (begin_submit s it now)"
  unfolding begin_submit_def
  by (rule store_rel_cong[OF store_save]) simp_all

lemma checkAndSubmit_tick: "tick_rel s (checkAndSubmit s now)"
proof (cases "admission s now = None")
  case False
  then show ?thesis by (auto simp: checkAndSubmit_eq tick_rel_refl)
next
  case True
  show ?thesis
  proof (cases "find (\<lambda>item. status item = Queued) (queue s)")
    case None
    with True show ?thesis by (simp add: checkAndSubmit_eq tick_rel_refl)
  next
    case (Some it)
    have "\<not> isSubmitting s" using admission_NoneD[OF True] by simp
    then have "tick_rel s (begin_submit s it now)"
      unfolding tick_rel_def using Some begin_submit_store[of s it now]
      by (auto simp: begin_submit_sel)
    with True Some show ?thesis by (simp add: checkAndSubmit_eq)
  qed
qed

lemma saveQueue_tick: "tick_rel s (saveQueue s)"
  by (simp add: tick_rel_def core_same_def store_save)

lemma updateUI_tick: "tick_rel s (updateUI s now)"
proof -
  let ?c = "saveQueue (s\<lparr>isPaused := False, pauseReason := None, dailyLimitResetTime := None\<rparr>)"
  have "store_rel s ?c" by (rule store_save) simp_all
  then have a: "tick_rel s ?c"
    by (simp add: tick_rel_def core_same_def)
  have b: "tick_rel ?c (checkAndSubmit ?c now)" by (rule checkAndSubmit_tick)
  show ?thesis
    using tick_rel_trans[OF a b] by (simp add: updateUI.simps tick_rel_refl)
qed






section \<open>The status of an item by its id\<close>

lemma qstatus_Nil [simp]: "qstatus [] i = None"
  by (simp add: qstatus_def)





lemma ids_upd_first [simp]:
  "map item_id (upd_first (\<lambda>x. item_id x = j) (set_status st m n) q) = map item_id q"
  by (induction q) (auto simp: set_status_def)

lemma set_ids_upd_first [simp]:
  "item_id ` set (upd_first (\<lambda>x. item_id x = j) (set_status st m n) q) = item_id ` set q"
  using ids_upd_first[of j st m n q] by (metis set_map)







lemma ids_reset [simp]: "map item_id (map reset_sending q) = map item_id q"
  by (induction q) (auto simp: reset_sending_def)





section \<open>The invariant under the events of a run\<close>



















lemma tick_comp_updateUI: "tick_rel s t \<Longrightarrow> tick_rel s (updateUI t now)"
  using tick_rel_trans updateUI_tick by blast

lemma tick_comp_check: "tick_rel s t \<Longrightarrow> tick_rel s (checkAndSubmit t now)"
  using tick_rel_trans checkAndSubmit_tick by blast

lemma tick_comp_save: "tick_rel s t \<Longrightarrow> tick_rel s (saveQueue t)"
  using tick_rel_trans saveQueue_tick by blast

lemmas tick_intros = tick_comp_updateUI tick_comp_check tick_comp_save







































lemma id_reset_comp [simp]: "item_id \<circ> reset_sending = item_id"
  by (auto simp: reset_sending_def)














section \<open>The flag and the suspended submission under every event\<close>







section \<open>The example runs\<close>

lemmas eval_defs = example_item_def example_storage_def example_ready_def example_sending_def
  loadQueue_def initial_state_def saveQueue_def token_captured_def controller_answer_def
  updateUI.simps checkAndSubmit.simps submitQueueItem_begin.simps updateItemStatus.simps
  admission_def js_and_num_def set_status_def reset_sending_def Let_def
  MAX_CONCURRENT_TASKS_def SUBMIT_COOLDOWN_MS_def

lemma example_ready_eq:
  "example_ready =
     \<lparr>queue = [example_item], isAutomationEnabled = True, isPaused = False, pauseReason = None,
      dailyLimitResetTime = None, hasValidToken = True, lastTokenCapture = Some 2000,
      activeTaskCount = 0, lastPollTime = None, lastSubmitTime = None, isSubmitting = False,
      isController = True, mainWorldReady = False, storage = example_storage, inflight = None,
      backoffTimers = [], extensionInvalidated = False, contextValid = True\<rparr>"
  by (simp add: eval_defs)

lemma example_sending_eq:
  "example_sending =
     \<lparr>queue = [example_item\<lparr>status := Sending, updatedAt := 5000\<rparr>], isAutomationEnabled = True,
      isPaused = False, pauseReason = None,
      dailyLimitResetTime = None, hasValidToken = True, lastTokenCapture = Some 2000,
      activeTaskCount = 0, lastPollTime = None, lastSubmitTime = Some 5000, isSubmitting = True,
      isController = True, mainWorldReady = False,
      storage = example_storage\<lparr>p_queue := Some [example_item\<lparr>status := Sending, updatedAt := 5000\<rparr>]\<rparr>,
      inflight = Some example_item, backoffTimers = [], extensionInvalidated = False,
      contextValid = True\<rparr>"
  by (simp add: eval_defs)







section \<open>Claim C1: the admission checks and the submission\<close>

lemma admission_order:
  assumes "dailyLimitResetTime s \<noteq> Some 0" "lastSubmitTime s \<noteq> Some 0"
  shows "admission s now = first_failing s now"
  using assms
  by (auto simp: admission_def first_failing_def spec_checks_def js_and_num_def
      MAX_CONCURRENT_TASKS_def SUBMIT_COOLDOWN_MS_def split: option.splits)

lemma findIndex_SomeD:
  "findIndex P xs = Some n \<Longrightarrow> n < length xs \<and> P (xs ! n) \<and> (\<forall>m<n. \<not> P (xs ! m))"
proof (induction xs arbitrary: n)
  case Nil
  then show ?case by simp
next
  case (Cons x xs)
  show ?case
  proof (cases "P x")
    case True
    with Cons.prems show ?thesis by simp
  next
    case False
    with Cons.prems obtain k where k: "findIndex P xs = Some k" "n = Suc k" by auto
    from Cons.IH[OF k(1)] False k(2) show ?thesis
      by (auto simp: nth_Cons split: nat.splits)
  qed
qed

lemma find_findIndex: "findIndex P xs = Some n \<Longrightarrow> find P xs = Some (xs ! n)"
  by (induction xs arbitrary: n) (auto split: if_splits)

lemma findIndex_None_find: "findIndex P xs = None \<Longrightarrow> find P xs = None"
  by (induction xs) (auto split: if_splits)

lemma upd_first_nth:
  "distinct (map item_id q) \<Longrightarrow> n < length q \<Longrightarrow>
   upd_first (\<lambda>x. item_id x = item_id (q ! n)) f q = q[n := f (q ! n)]"
proof (induction q arbitrary: n)
  case Nil
  then show ?case by simp
next
  case (Cons x q)
  show ?case
  proof (cases n)
    case 0
    then show ?thesis by simp
  next
    case (Suc k)
    with Cons.prems have "k < length q" "item_id x \<noteq> item_id (q ! k)" by auto
    with Cons Suc show ?thesis by simp
  qed
qed

lemma checkAndSubmit_first_queued:
  assumes "distinct (map item_id (queue s))" "admission s now = None"
    "findIndex (\<lambda>item. status item = Queued) (queue s) = Some n"
  shows "checkAndSubmit s now =
           (saveQueue (s\<lparr>isSubmitting := True, lastSubmitTime := Some now,
              queue := (queue s)[n := (queue s ! n)\<lparr>status := Sending, errorMessage := None,
                                                    updatedAt := now\<rparr>]\<rparr>))
           \<lparr>inflight := Some (queue s ! n)\<rparr>"
proof -
  from findIndex_SomeD[OF assms(3)] have n: "n < length (queue s)" by simp
  have "set_status Sending None now (queue s ! n) =
        (queue s ! n)\<lparr>status := Sending, errorMessage := None, updatedAt := now\<rparr>"
    by (simp add: set_status_def)
  then show ?thesis
    using assms(2) find_findIndex[OF assms(3)] upd_first_nth[OF assms(1) n, of "set_status Sending None now"]
    by (simp add: checkAndSubmit_eq begin_submit_def)
qed

text \<open>
  Claim C1. For a state whose timestamps are not 0 where set and whose item ids are
  distinct: the guard of \<open>checkAndSubmit\<close> that returns is the first check, in the order
  of the specification, that fails; when a check fails the state is unchanged; when all
  pass and no item is queued the state is unchanged; when all pass and an item is queued,
  the first queued item in queue order (index \<open>n\<close>) is marked \<open>Sending\<close>, \<open>isSubmitting\<close>
  is set, \<open>lastSubmitTime\<close> is the clock value, the queue is saved, and the submission of
  that item is suspended on the call to the background worker.
\<close>

theorem checkAndSubmit_admission:
  assumes "dailyLimitResetTime s \<noteq> Some 0" "lastSubmitTime s \<noteq> Some 0"
    and "distinct (map item_id (queue s))"
  shows "admission s now = first_failing s now \<and>
         (admission s now \<noteq> None \<longrightarrow> checkAndSubmit s now = s) \<and>
         (admission s now = None \<longrightarrow>
            (case findIndex (\<lambda>item. status item = Queued) (queue s) of
               None \<Rightarrow> checkAndSubmit s now = s
             | Some n \<Rightarrow>
                 n < length (queue s) \<and> status (queue s ! n) = Queued \<and>
                 (\<forall>m<n. status (queue s ! m) \<noteq> Queued) \<and>
                 checkAndSubmit s now =
                   (saveQueue (s\<lparr>isSubmitting := True, lastSubmitTime := Some now,
                      queue := (queue s)[n := (queue s ! n)\<lparr>status := Sending,
                                 errorMessage := None, updatedAt := now\<rparr>]\<rparr>))
                   \<lparr>inflight := Some (queue s ! n)\<rparr>))"
proof (intro conjI impI)
  show "admission s now = first_failing s now" by (rule admission_order[OF assms(1,2)])
  show "checkAndSubmit s now = s" if "admission s now \<noteq> None"
    using that by (auto simp: checkAndSubmit_eq)
  show "case findIndex (\<lambda>item. status item = Queued) (queue s) of
               None \<Rightarrow> checkAndSubmit s now = s
             | Some n \<Rightarrow>
                 n < length (queue s) \<and> status (queue s ! n) = Queued \<and>
                 (\<forall>m<n. status (queue s ! m) \<noteq> Queued) \<and>
                 checkAndSubmit s now =
                   (saveQueue (s\<lparr>isSubmitting := True, lastSubmitTime := Some now,
                      queue := (queue s)[n := (queue s ! n)\<lparr>status := Sending,
                                 errorMessage := None, updatedAt := now\<rparr>]\<rparr>))
                   \<lparr>inflight := Some (queue s ! n)\<rparr>"
    if adm: "admission s now = None"
  proof (cases "findIndex (\<lambda>item. status item = Queued) (queue s)")
    case None
    then show ?thesis using findIndex_None_find[OF None] adm by (simp add: checkAndSubmit_eq)
  next
    case (Some n)
    from findIndex_SomeD[OF Some] checkAndSubmit_first_queued[OF assms(3) adm Some] Some
    show ?thesis by simp
  qed
qed

text \<open>
  Witness for C1: the example script passes every check at time 5000 and ends in the
  state \<open>example_sending\<close>; one second later the third check stops the tick.
\<close>

theorem checkAndSubmit_admission_witness:
  "dailyLimitResetTime example_ready \<noteq> Some 0 \<and> lastSubmitTime example_ready \<noteq> Some 0 \<and>
   distinct (map item_id (queue example_ready)) \<and>
   first_failing example_ready 5000 = None \<and>
   checkAndSubmit example_ready 5000 = example_sending \<and>
   first_failing example_sending 6000 = Some 3 \<and>
   checkAndSubmit example_sending 6000 = example_sending"
proof -
  have a: "dailyLimitResetTime example_ready \<noteq> Some 0" "lastSubmitTime example_ready \<noteq> Some 0"
    "distinct (map item_id (queue example_ready))"
    by (simp_all add: example_ready_eq)
  have b: "dailyLimitResetTime example_sending \<noteq> Some 0" "lastSubmitTime example_sending \<noteq> Some 0"
    "distinct (map item_id (queue example_sending))"
    by (simp_all add: example_sending_eq)
  have c: "admission example_ready 5000 = None"
    by (simp add: example_ready_eq admission_def js_and_num_def MAX_CONCURRENT_TASKS_def)
  have d: "admission example_sending 6000 = Some 3"
    by (simp add: example_sending_eq admission_def)
  from checkAndSubmit_admission[OF a, of 5000] c have "first_failing example_ready 5000 = None" by simp
  moreover have "checkAndSubmit example_ready 5000 = example_sending"
    by (simp add: example_sending_def)
  moreover from checkAndSubmit_admission[OF b, of 6000] d
  have "first_failing example_sending 6000 = Some 3 \<and> checkAndSubmit example_sending 6000 = example_sending"
    by simp
  ultimately show ?thesis using a by simp
qed

section \<open>Claims C2 and C7: single flight and the status transitions\<close>


lemmas eval_defs2 = eval_defs submitQueueItem_end_def handleSubmitError_def unknown_failure_def
  scheduleBackoffRetry_def BACKOFF_BASE_MS_def message_or_def removeFromQueue_def

subsection \<open>The run in which the popup's write is overtaken\<close>











subsection \<open>The run in which the extension is reloaded\<close>







subsection \<open>Claim C2\<close>




subsection \<open>Claim C7\<close>




section \<open>Claim C3: retries after an unclassified 429\<close>

lemma loop_state_start: "example_ready = loop_state 1000 None []"
  by (simp add: loop_state_def example_ready_eq example_item_def example_storage_def)

lemma retry_round_loop:
  assumes "lst = None \<or> (\<exists>t. lst = Some t \<and> t + 2000 \<le> now)"
  shows "retry_round (loop_state u lst timers) now =
           loop_state (now + 1000) (Some now) (timers @ [now + 11000])"
  using assms
  by (auto simp: retry_round_def loop_state_def example_ready_eq example_item_def
      example_storage_def eval_defs2)

lemma retry_rounds_loop:
  assumes "lst = None \<or> (\<exists>t. lst = Some t \<and> t + 2000 \<le> now)"
  shows "\<exists>u' lst' timers'. retry_rounds n (loop_state u lst timers) now = loop_state u' lst' timers'
           \<and> length timers' = length timers + n"
  using assms
proof (induction n arbitrary: u lst timers now)
  case 0
  have "retry_rounds 0 (loop_state u lst timers) now = loop_state u lst timers
      \<and> length timers = length timers + 0" by simp
  then show ?case by blast
next
  case (Suc n)
  have "Some now = None \<or> (\<exists>t. Some now = Some t \<and> t + 2000 \<le> now + 20000)" by simp
  from Suc.IH[OF this, of "now + 1000" "timers @ [now + 11000]"]
  show ?case by (simp add: retry_round_loop[OF Suc.prems])
qed

text \<open>
  Claim C3, evaluated on the example script. After any number \<open>n\<close> of attempts that each
  end with an unclassified 429, the item is \<open>Queued\<close> again, its \<open>retryCount\<close> is still 0
  and \<open>n\<close> backoff timers have been set: the branch for \<open>retryCount \<ge> 3\<close> is never
  taken, because \<open>retryCount\<close> grows only when an item becomes \<open>Error\<close>, and such an
  item is not submitted again.
\<close>

theorem unknown_rate_limit_requeues_unbounded:
  "\<forall>n. map status (queue (retry_rounds n example_ready 5000)) = [Queued] \<and>
       map retryCount (queue (retry_rounds n example_ready 5000)) = [0] \<and>
       length (backoffTimers (retry_rounds n example_ready 5000)) = n"
proof
  fix n
  from retry_rounds_loop[of None 5000 n 1000 "[]"] obtain u' lst' timers' where
    "retry_rounds n example_ready 5000 = loop_state u' lst' timers'" "length timers' = n"
    by (auto simp: loop_state_start)
  then show "map status (queue (retry_rounds n example_ready 5000)) = [Queued] \<and>
       map retryCount (queue (retry_rounds n example_ready 5000)) = [0] \<and>
       length (backoffTimers (retry_rounds n example_ready 5000)) = n"
    by (simp add: loop_state_def example_item_def)
qed

section \<open>Claim C4: manual resume\<close>

lemma example_paused_eq:
  "example_paused =
     \<lparr>queue = [example_item\<lparr>updatedAt := 6000\<rparr>], isAutomationEnabled = True,
      isPaused = True, pauseReason = Some ''daily_limit'',
      dailyLimitResetTime = Some 126000, hasValidToken = True, lastTokenCapture = Some 2000,
      activeTaskCount = 0, lastPollTime = None, lastSubmitTime = Some 5000, isSubmitting = False,
      isController = True, mainWorldReady = False,
      storage = \<lparr>p_queue = Some [example_item\<lparr>updatedAt := 6000\<rparr>],
         p_dailyLimitResetTime = Some 126000, p_isPaused = Some True,
         p_pauseReason = Some ''daily_limit'', p_isAutomationEnabled = Some True\<rparr>,
      inflight = None, backoffTimers = [], extensionInvalidated = False, contextValid = True\<rparr>"
  by (simp add: example_paused_def example_sending_eq example_item_def example_storage_def
      eval_defs2 daily_limit_failure_def)

lemmas eval_defs3 = eval_defs2 retryNow_click_def toggleAutomation_click_def popup_toggle_def
  popup_toggleAutomation_def onStorageChanged_def

text \<open>
  Claim C4, evaluated on the script paused for the daily limit until time 126000. At
  time 10000 the Retry Now button, the toggle button of the panel and the button of the
  popup each clear the pause and leave \<open>dailyLimitResetTime\<close> as it is, so that the
  seventh check still stops the Submit tick and the item stays \<open>Queued\<close>. After the reset
  time (at 200000) the popup's button leaves the item \<open>Queued\<close> although every check
  would pass: it triggers no Submit tick.
\<close>

theorem manual_resume_keeps_reset_time:
  "dailyLimitResetTime (retryNow_click example_paused 10000) = Some 126000 \<and>
   admission (retryNow_click example_paused 10000) 10000 = Some 7 \<and>
   map status (queue (retryNow_click example_paused 10000)) = [Queued] \<and>
   dailyLimitResetTime (toggleAutomation_click example_paused 10000) = Some 126000 \<and>
   admission (toggleAutomation_click example_paused 10000) 10000 = Some 7 \<and>
   map status (queue (toggleAutomation_click example_paused 10000)) = [Queued] \<and>
   dailyLimitResetTime (popup_toggle example_paused 10000) = Some 126000 \<and>
   admission (popup_toggle example_paused 10000) 10000 = Some 7 \<and>
   map status (queue (popup_toggle example_paused 10000)) = [Queued] \<and>
   admission (popup_toggle example_paused 200000) 200000 = None \<and>
   map status (queue (popup_toggle example_paused 200000)) = [Queued]"
  by (simp add: example_paused_eq example_item_def eval_defs3)

section \<open>Claim C8: the stale lease\<close>

text \<open>
  Claim C8, evaluated on a lease whose heartbeat is 29 seconds old. A heartbeat of
  another tab does not make that tab the controller and leaves the lease unchanged, also
  after the controller tab was closed and the lease removed; \<open>registerController\<close>
  called by the same tab claims the lease.
\<close>

theorem heartbeat_never_claims:
  "handleHeartbeat 30000 stale_lease (Some 2) = (IsController False, stale_lease) \<and>
   handleHeartbeat 30000 (onTabRemoved stale_lease 1) (Some 2)
     = (IsController False, \<lparr>controllerTabId = None, controllerHeartbeat = None\<rparr>) \<and>
   registerController every_tab_exists 30000 stale_lease (Some 2)
     = (IsController True, \<lparr>controllerTabId = Some 2, controllerHeartbeat = Some 30000\<rparr>)"
  by (simp add: handleHeartbeat_def registerController_def onTabRemoved_def stale_lease_def)

text \<open>
  Witness for C8: the reply to the heartbeat of tab 2.
\<close>

theorem heartbeat_never_claims_witness:
  "fst (handleHeartbeat 30000 stale_lease (Some 2)) = IsController False \<and>
   fst (registerController every_tab_exists 30000 stale_lease (Some 2)) = IsController True"
  using heartbeat_never_claims by simp

section \<open>Claims C5 and C6: the classifier\<close>

lemmas cls_defs = parse429Response_def is_daily_limit_def isConcurrentLimit_def opt_prop_def
  js_or_def Let_def

lemmas re_defs = re_already_have_def re_only_generate_def re_too_many_def re_maximum_def lit_def
  ci_eq_def ascii_upper_def is_line_terminator_def

text \<open>
  Counterexample for C5: for the body \<open>{type: "rate_limit_exhausted", resetSeconds: 120}\<close>
  the classifier answers \<open>DAILY_LIMIT\<close> with \<open>resetSeconds\<close> 0 and no reset time.
\<close>

theorem daily_limit_resetSeconds_ignored:
  "parse429Response nan_strnum 1000 exhausted_body
     = DAILY_LIMIT (JStr ''Daily generation limit reached.'') (JNum 0) None (JNum 0) \<and>
   resetSeconds (parse429Response nan_strnum 1000 exhausted_body) \<noteq> JNum 120"
  by (simp add: cls_defs exhausted_body_def)

text \<open>
  Claim C5 as amended. The number of seconds is read from
  \<open>rate_limit_and_credit_balance.access_resets_in_seconds\<close>: with 120 there, the answer is
  \<open>DAILY_LIMIT\<close> with \<open>resetSeconds\<close> 120 and the reset time \<open>now + 120000\<close>. For every
  answer \<open>DAILY_LIMIT\<close>, \<open>resetSeconds\<close> is that field, or 0 when it is missing or falsy,
  and the reset time is \<open>now + resetSeconds * 1000\<close> when \<open>resetSeconds\<close> is a number above
  0 and unset otherwise.
\<close>

theorem daily_limit_metadata:
  "parse429Response strnum now exhausted_body_nested
     = DAILY_LIMIT (JStr ''Daily generation limit reached.'') (JNum 120) (Some (now + 120000)) (JNum 0) \<and>
   (parse429Response strnum now data = DAILY_LIMIT m rs rt cr \<longrightarrow>
      rs = js_or (opt_prop (get_prop data ''rate_limit_and_credit_balance'')
                   ''access_resets_in_seconds'') (JNum 0) \<and>
      rt = (case to_number strnum rs of
              None \<Rightarrow> None
            | Some n \<Rightarrow> if 0 < n then Some (now + n * 1000) else None))"
proof (intro conjI impI)
  show "parse429Response strnum now exhausted_body_nested
     = DAILY_LIMIT (JStr ''Daily generation limit reached.'') (JNum 120) (Some (now + 120000)) (JNum 0)"
    by (simp add: cls_defs exhausted_body_nested_def)
next
  assume "parse429Response strnum now data = DAILY_LIMIT m rs rt cr"
  then show "rs = js_or (opt_prop (get_prop data ''rate_limit_and_credit_balance'')
                   ''access_resets_in_seconds'') (JNum 0)"
    by (simp add: parse429Response_def Let_def split: if_splits)
next
  assume "parse429Response strnum now data = DAILY_LIMIT m rs rt cr"
  then show "rt = (case to_number strnum rs of
              None \<Rightarrow> None
            | Some n \<Rightarrow> if 0 < n then Some (now + n * 1000) else None)"
    by (auto simp add: parse429Response_def Let_def split: if_splits)
qed

text \<open>
  Witness for C5 at the nested body and time 1000.
\<close>

theorem daily_limit_metadata_witness:
  "parse429Response nan_strnum 1000 exhausted_body_nested
     = DAILY_LIMIT (JStr ''Daily generation limit reached.'') (JNum 120) (Some 121000) (JNum 0) \<and>
   js_or (opt_prop (get_prop exhausted_body_nested ''rate_limit_and_credit_balance'')
            ''access_resets_in_seconds'') (JNum 0) = JNum 120"
  using daily_limit_metadata[of nan_strnum 1000 exhausted_body_nested
      "JStr ''Daily generation limit reached.''" "JNum 120" "Some 121000" "JNum 0"]
  by simp

lemma not_truthy_props: "\<not> truthy data \<Longrightarrow> get_prop data k = JUndefined"
  by (cases data) auto

lemma re_empty:
  "\<not> match_here re_already_have []" "\<not> match_here re_only_generate []"
  "\<not> match_here re_too_many []" "\<not> match_here re_maximum []"
  by (simp_all add: re_defs)

lemma concurrent_truthy: "isConcurrentLimit data \<Longrightarrow> truthy data"
  by (rule ccontr) (simp add: isConcurrentLimit_def not_truthy_props opt_prop_def js_or_def re_empty)

text \<open>
  Claim C6. A body that is not a daily limit and has the error code
  \<open>too_many_concurrent_tasks\<close>, or \<open>error.details.num_tasks\<close> equal to 3, or an error message
  that one of the four patterns matches, is classified \<open>CONCURRENT_LIMIT\<close>, with
  \<open>numTasks\<close> from the body or 3; so are the two bodies of the specification.
\<close>

theorem concurrent_limit_classified:
  "(\<not> is_daily_limit data \<longrightarrow>
      (opt_prop (get_prop data ''error'') ''code'' = JStr ''too_many_concurrent_tasks'' \<or>
       opt_prop (opt_prop (get_prop data ''error'') ''details'') ''num_tasks'' = JNum 3 \<or>
       (\<exists>re \<in> {re_already_have, re_only_generate, re_too_many, re_maximum}.
          regex_test re (to_string (js_or (opt_prop (get_prop data ''error'') ''message'') (JStr ''''))))) \<longrightarrow>
      parse429Response strnum now data =
        CONCURRENT_LIMIT
          (js_or (opt_prop (get_prop data ''error'') ''message'')
             (JStr ''Maximum concurrent generations reached (3).''))
          (js_or (opt_prop (opt_prop (get_prop data ''error'') ''details'') ''num_tasks'') (JNum 3))) \<and>
   parse429Response strnum now code_body =
     CONCURRENT_LIMIT (JStr ''Maximum concurrent generations reached (3).'') (JNum 3) \<and>
   parse429Response strnum now phrase_body =
     CONCURRENT_LIMIT (JStr ''you can only generate 3 videos at a time'') (JNum 3)"
proof (intro conjI impI)
  assume nd: "\<not> is_daily_limit data"
    and crit: "opt_prop (get_prop data ''error'') ''code'' = JStr ''too_many_concurrent_tasks'' \<or>
       opt_prop (opt_prop (get_prop data ''error'') ''details'') ''num_tasks'' = JNum 3 \<or>
       (\<exists>re \<in> {re_already_have, re_only_generate, re_too_many, re_maximum}.
          regex_test re (to_string (js_or (opt_prop (get_prop data ''error'') ''message'') (JStr ''''))))"
  from crit have c: "isConcurrentLimit data"
    by (simp add: isConcurrentLimit_def Let_def)
  from concurrent_truthy[OF c] nd c
  show "parse429Response strnum now data =
        CONCURRENT_LIMIT
          (js_or (opt_prop (get_prop data ''error'') ''message'')
             (JStr ''Maximum concurrent generations reached (3).''))
          (js_or (opt_prop (opt_prop (get_prop data ''error'') ''details'') ''num_tasks'') (JNum 3))"
    by (simp add: parse429Response_def)
next
  show "parse429Response strnum now code_body =
     CONCURRENT_LIMIT (JStr ''Maximum concurrent generations reached (3).'') (JNum 3)"
    by (simp add: cls_defs code_body_def)
next
  show "parse429Response strnum now phrase_body =
     CONCURRENT_LIMIT (JStr ''you can only generate 3 videos at a time'') (JNum 3)"
    by (simp add: cls_defs re_defs phrase_body_def)
qed

text \<open>
  Witness for C6: a message in mixed case that the fourth pattern matches, with
  \<open>num_tasks\<close> 5 in the body.
\<close>

theorem concurrent_limit_classified_witness:
  "\<not> is_daily_limit maximum_body \<and>
   regex_test re_maximum (to_string (js_or (opt_prop (get_prop maximum_body ''error'') ''message'') (JStr ''''))) \<and>
   parse429Response nan_strnum 1000 maximum_body =
     CONCURRENT_LIMIT (JStr ''Maximum number of CONCURRENT video generations reached'') (JNum 5)"
proof -
  have a: "\<not> is_daily_limit maximum_body"
    by (simp add: is_daily_limit_def opt_prop_def maximum_body_def)
  have b: "regex_test re_maximum
      (to_string (js_or (opt_prop (get_prop maximum_body ''error'') ''message'') (JStr '''')))"
    by (simp add: opt_prop_def js_or_def maximum_body_def re_defs)
  have crit: "opt_prop (get_prop maximum_body ''error'') ''code'' = JStr ''too_many_concurrent_tasks'' \<or>
       opt_prop (opt_prop (get_prop maximum_body ''error'') ''details'') ''num_tasks'' = JNum 3 \<or>
       (\<exists>re \<in> {re_already_have, re_only_generate, re_too_many, re_maximum}.
          regex_test re (to_string (js_or (opt_prop (get_prop maximum_body ''error'') ''message'') (JStr ''''))))"
    by (intro disjI2 bexI[of _ re_maximum] b) simp
  have m: "js_or (opt_prop (get_prop maximum_body ''error'') ''message'')
             (JStr ''Maximum concurrent generations reached (3).'')
           = JStr ''Maximum number of CONCURRENT video generations reached''"
    by (simp add: opt_prop_def js_or_def maximum_body_def)
  have n: "js_or (opt_prop (opt_prop (get_prop maximum_body ''error'') ''details'') ''num_tasks'') (JNum 3)
           = JNum 5"
    by (simp add: opt_prop_def js_or_def maximum_body_def)
  from mp[OF mp[OF conjunct1[OF concurrent_limit_classified[of maximum_body nan_strnum 1000]] a] crit]
  have c: "parse429Response nan_strnum 1000 maximum_body =
     CONCURRENT_LIMIT (JStr ''Maximum number of CONCURRENT video generations reached'') (JNum 5)"
    by (simp only: m n)
  show ?thesis by (intro conjI a b c)
qed

section \<open>Claim C9: enqueue and empty content\<close>

lemma trim_Nil_or_ends: "trim s = [] \<or> (\<not> is_ws (hd (trim s)) \<and> \<not> is_ws (last (trim s)))"
proof (cases "trim s = []")
  case True
  then show ?thesis by simp
next
  case False
  let ?t = "dropWhile is_ws s"
  let ?r = "dropWhile is_ws (rev ?t)"
  from False have r: "?r \<noteq> []" by (simp add: trim_def)
  have t: "?t \<noteq> []"
  proof
    assume "?t = []"
    then have e: "?r = []" by (simp only: rev.simps dropWhile.simps)
    from r e show False by (rule notE)
  qed
  from hd_dropWhile[OF r] have "\<not> is_ws (hd ?r)" .
  then have l: "\<not> is_ws (last (trim s))" using r by (simp add: trim_def last_rev)
  have "rev ?t = takeWhile is_ws (rev ?t) @ ?r" by simp
  then have "last (rev ?t) = last ?r" using r by (metis last_appendR)
  then have "last ?r = hd ?t" using t by (simp add: last_rev)
  moreover from hd_dropWhile[OF t] have "\<not> is_ws (hd ?t)" .
  ultimately have "\<not> is_ws (hd (trim s))" using r by (simp add: trim_def hd_rev)
  with l show ?thesis by simp
qed

lemma trim_fixed: "t = [] \<or> (\<not> is_ws (hd t) \<and> \<not> is_ws (last t)) \<Longrightarrow> trim t = t"
proof (cases "t = []")
  case True
  then show ?thesis by (simp add: trim_def)
next
  case False
  assume "t = [] \<or> (\<not> is_ws (hd t) \<and> \<not> is_ws (last t))"
  with False have h: "\<not> is_ws (hd t)" and l: "\<not> is_ws (last t)" by auto
  from h have 1: "dropWhile is_ws t = t" by (simp add: dropWhile_eq_self_iff)
  from l False have "\<not> is_ws (hd (rev t))" by (simp add: hd_rev)
  then have 2: "dropWhile is_ws (rev t) = rev t" by (simp add: dropWhile_eq_self_iff)
  show ?thesis by (simp add: trim_def 1 2)
qed

lemma trim_idem: "trim (trim s) = trim s"
  by (rule trim_fixed[OF trim_Nil_or_ends])

lemma set_status_prompt [simp]: "prompt (set_status st m now i) = prompt i"
  by (simp add: set_status_def)

lemma prompts_upd_first:
  "map prompt (upd_first P (set_status st m now) q) = map prompt q"
  by (induction q) auto

lemma tick_prompts: "tick_rel s s' \<Longrightarrow> map prompt (queue s') = map prompt (queue s)"
  by (auto simp: tick_rel_def core_same_def prompts_upd_first)

lemma addToQueue_prompts:
  "map prompt (queue (addToQueue s p opts newId now)) = map prompt (queue s) @ [trim p]"
proof -
  let ?s0 = "saveQueue (s\<lparr>queue := queue s @ [new_item p opts newId now]\<rparr>)"
  have "tick_rel ?s0 (addToQueue s p opts newId now)"
    unfolding addToQueue_def by (intro tick_intros tick_rel_refl)
  from tick_prompts[OF this] show ?thesis by (simp add: new_item_def)
qed

text \<open>
  Counterexample for C9: \<open>addToQueue\<close> called with blanks puts an item with empty
  content into an empty queue.
\<close>

theorem addToQueue_accepts_blank:
  "queue example_fresh = [] \<and>
   map prompt (queue (addToQueue example_fresh ''   '' [] ''q_2'' 2000)) = [[]] \<and>
   map status (queue (addToQueue example_fresh ''   '' [] ''q_2'' 2000)) = [Queued]"
  by (simp add: example_fresh_def no_entry_def addToQueue_def new_item_def trim_def is_ws_def
      eval_defs)

text \<open>
  Claim C9 as amended. \<open>addToQueue\<close> appends an item whose content is the trimmed
  input, whatever the input, and a trimmed content stays as it is under \<open>trim\<close>. The Add
  button of the panel and \<open>queueCurrentPrompt\<close> leave the state unchanged when the input
  is empty or white space, and otherwise append one item with the trimmed input, which
  is not empty.
\<close>

theorem enqueue_handlers_validate:
  "map prompt (queue (addToQueue s p opts newId now)) = map prompt (queue s) @ [trim p] \<and>
   trim (trim p) = trim p \<and>
   (trim input = [] \<longrightarrow>
      addBtn_click s input orientation newId now = s \<and>
      queueCurrentPrompt s (Some input) newId now = s) \<and>
   (trim input \<noteq> [] \<longrightarrow>
      map prompt (queue (addBtn_click s input orientation newId now))
        = map prompt (queue s) @ [trim input] \<and>
      map prompt (queue (queueCurrentPrompt s (Some input) newId now))
        = map prompt (queue s) @ [trim input])"
  by (simp add: addToQueue_prompts trim_idem addBtn_click_def queueCurrentPrompt_def)

text \<open>
  Witness for C9 on a fresh script.
\<close>

theorem enqueue_handlers_validate_witness:
  "trim ''  a sunset '' \<noteq> [] \<and> trim ''   '' = [] \<and>
   map prompt (queue (addBtn_click example_fresh ''  a sunset '' ''landscape'' ''q_2'' 2000))
     = [''a sunset''] \<and>
   addBtn_click example_fresh ''   '' ''landscape'' ''q_2'' 2000 = example_fresh"
proof -
  have a: "trim ''  a sunset '' = ''a sunset''" and b: "trim ''   '' = []"
    by (simp_all add: trim_def is_ws_def)
  have q: "queue example_fresh = []"
    by (simp add: example_fresh_def no_entry_def eval_defs)
  from enqueue_handlers_validate[of example_fresh "''x''" "[]" "''q_2''" 2000 "''  a sunset ''" "''landscape''"] a q
  have 1: "map prompt (queue (addBtn_click example_fresh ''  a sunset '' ''landscape'' ''q_2'' 2000))
     = [''a sunset'']" by simp
  from enqueue_handlers_validate[of example_fresh "''x''" "[]" "''q_2''" 2000 "''   ''" "''landscape''"] b
  have 2: "addBtn_click example_fresh ''   '' ''landscape'' ''q_2'' 2000 = example_fresh" by simp
  show ?thesis using a b 1 2 by simp
qed

section \<open>Claim C10: the manual token\<close>

text \<open>
  Claim C10. \<open>setManualToken\<close> answers \<open>Invalid token\<close> and leaves both storage areas
  unchanged when the token of the payload is missing or falsy, is not a string, or trims
  to the empty string. For a string \<open>t\<close> that does not, the trimmed token and the clock
  value are written to the session area and the answer is success; when the session area
  rejects the write they are written to the local area instead; when both reject it the
  exception leaves the function and nothing is stored.
\<close>

theorem setManualToken_validates:
  "(\<not> truthy (get_prop (js_or payload (JObj [])) ''token'') \<or>
    \<not> is_string (get_prop (js_or payload (JObj [])) ''token'') \<or>
    trim (str_of (get_prop (js_or payload (JObj [])) ''token'')) = [] \<longrightarrow>
      setManualToken session_ok local_ok now st payload = (TokenRejected ''Invalid token'', st)) \<and>
   (get_prop (js_or payload (JObj [])) ''token'' = JStr t \<and> trim t \<noteq> [] \<longrightarrow>
      (session_ok \<longrightarrow>
         fst (setManualToken session_ok local_ok now st payload) = TokenAccepted True \<and>
         session_area (snd (setManualToken session_ok local_ok now st payload)) KEY_TOKEN
           = Some (JStr (trim t)) \<and>
         session_area (snd (setManualToken session_ok local_ok now st payload)) KEY_TOKEN_CAPTURED_AT
           = Some (JNum now) \<and>
         local_area (snd (setManualToken session_ok local_ok now st payload)) = local_area st) \<and>
      (\<not> session_ok \<and> local_ok \<longrightarrow>
         fst (setManualToken session_ok local_ok now st payload) = TokenAccepted True \<and>
         local_area (snd (setManualToken session_ok local_ok now st payload)) KEY_TOKEN
           = Some (JStr (trim t)) \<and>
         local_area (snd (setManualToken session_ok local_ok now st payload)) KEY_TOKEN_CAPTURED_AT
           = Some (JNum now) \<and>
         session_area (snd (setManualToken session_ok local_ok now st payload)) = session_area st) \<and>
      (\<not> session_ok \<and> \<not> local_ok \<longrightarrow>
         setManualToken session_ok local_ok now st payload = (StorageRaised, st)))"
proof -
  have keys: "KEY_TOKEN \<noteq> KEY_TOKEN_CAPTURED_AT" "KEY_TOKEN \<noteq> KEY_DEVICE_ID"
    "KEY_TOKEN \<noteq> KEY_LANGUAGE" "KEY_TOKEN_CAPTURED_AT \<noteq> KEY_DEVICE_ID"
    "KEY_TOKEN_CAPTURED_AT \<noteq> KEY_LANGUAGE"
    by (simp_all add: KEY_TOKEN_def KEY_TOKEN_CAPTURED_AT_def KEY_DEVICE_ID_def KEY_LANGUAGE_def)
  have d1: "manual_token_data now (JStr t) dv lg KEY_TOKEN = Some (JStr (trim t))" for dv lg
    using keys by (simp add: manual_token_data_def Let_def)
  have d2: "manual_token_data now (JStr t) dv lg KEY_TOKEN_CAPTURED_AT = Some (JNum now)" for dv lg
    using keys by (simp add: manual_token_data_def Let_def)
  have e: "trim [] = []" by (simp add: trim_def)
  show ?thesis
    using e by (auto simp: setManualToken_def Let_def map_add_def d1 d2)
qed

text \<open>
  Witness for C10: a blank token and a number are refused, a padded token is stored trimmed.
\<close>

theorem setManualToken_validates_witness:
  "setManualToken True True 1000 empty_stores (JObj [(''token'', JStr ''   '')])
     = (TokenRejected ''Invalid token'', empty_stores) \<and>
   setManualToken True True 1000 empty_stores (JObj [(''token'', JNum 5)])
     = (TokenRejected ''Invalid token'', empty_stores) \<and>
   fst (setManualToken True True 1000 empty_stores (JObj [(''token'', JStr '' abc '')]))
     = TokenAccepted True \<and>
   session_area (snd (setManualToken True True 1000 empty_stores (JObj [(''token'', JStr '' abc '')])))
     KEY_TOKEN = Some (JStr ''abc'')"
proof -
  have t: "trim ''   '' = []" "trim '' abc '' = ''abc''" by (simp_all add: trim_def is_ws_def)
  from setManualToken_validates[of "JObj [(''token'', JStr ''   '')]" True True 1000 empty_stores "''x''"] t
  have 1: "setManualToken True True 1000 empty_stores (JObj [(''token'', JStr ''   '')])
     = (TokenRejected ''Invalid token'', empty_stores)" by (simp add: js_or_def)
  from setManualToken_validates[of "JObj [(''token'', JNum 5)]" True True 1000 empty_stores "''x''"]
  have 2: "setManualToken True True 1000 empty_stores (JObj [(''token'', JNum 5)])
     = (TokenRejected ''Invalid token'', empty_stores)" by (simp add: js_or_def)
  from setManualToken_validates[of "JObj [(''token'', JStr '' abc '')]" True True 1000 empty_stores "'' abc ''"] t
  have 3: "fst (setManualToken True True 1000 empty_stores (JObj [(''token'', JStr '' abc '')]))
     = TokenAccepted True \<and>
   session_area (snd (setManualToken True True 1000 empty_stores (JObj [(''token'', JStr '' abc '')])))
     KEY_TOKEN = Some (JStr ''abc'')" by (simp add: js_or_def)
  show ?thesis using 1 2 3 by simp
qed


end
